theory Spec2Isabelle
  imports Complex_Main "HOL-Library.Monad_Syntax"
begin

section \<open>Fixed-point values\<close>

text \<open>
  Modelled from the spec: \<open>fixedpoint.Value\<close> (package \<open>pkg/fixedpoint\<close> is not among the
  sources). The spec describes monetary quantities as fixed-point decimals, never binary
  floats; they are taken here as rationals with exact \<open>Add\<close>, \<open>Sub\<close>, \<open>Mul\<close>, \<open>Neg\<close>, \<open>Abs\<close>
  and \<open>Compare\<close>. What \<open>Div\<close> returns for a zero divisor cannot be read off the sources, so
  division is partial: \<open>None\<close> stands for a division by zero. Exact products and quotients
  are an idealisation of the package's rounding operations; where a property depends on
  the rounding (the comparison of two aggregated prices), the price aggregator is taken
  over an arithmetic given as a parameter, in the section on rounding arithmetic below.
\<close>

type_synonym Value = rat

definition fixedpoint_Div :: "Value \<Rightarrow> Value \<Rightarrow> Value option" where
  "fixedpoint_Div x y = (if y = 0 then None else Some (x / y))"

section \<open>Price aggregator (\<open>pkg/strategy/xmaker/strategy.go\<close>, \<open>aggregatePrice\<close>)\<close>

record PriceVolume =
  Price :: Value
  Volume :: Value

text \<open>
  The \<open>for\<close> loop of \<open>aggregatePrice\<close>: the list is the part of \<open>pvs\<close> from index \<open>i\<close> on,
  \<open>q\<close> and \<open>totalAmount\<close> are the loop variables; the result is \<open>totalAmount\<close> when the
  loop ends, either by \<open>break\<close> or by running off the slice.
\<close>

fun aggregateLoop :: "PriceVolume list \<Rightarrow> Value \<Rightarrow> Value \<Rightarrow> Value" where
  "aggregateLoop [] q totalAmount = totalAmount"
| "aggregateLoop (pv # pvs) q totalAmount =
     (if Volume pv \<ge> q then totalAmount + q * Price pv
      else aggregateLoop pvs (q - Volume pv) (totalAmount + Volume pv * Price pv))"

definition aggregatePrice :: "PriceVolume list \<Rightarrow> Value \<Rightarrow> Value option" where
  "aggregatePrice pvs requiredQuantity =
     (if length pvs = 0 then Some 0
      else if Volume (pvs ! 0) \<ge> requiredQuantity then Some (Price (pvs ! 0))
      else fixedpoint_Div (aggregateLoop pvs requiredQuantity 0) requiredQuantity)"

text \<open>
  The contract of the price aggregator in the words of the specification (section 4.1):
  walk the levels in order, accumulating \<open>volume * price\<close> and draining the remaining
  quantity; when the remaining quantity is at or below the current level's volume, consume
  exactly that residual and stop.
\<close>

fun spec_consumed :: "PriceVolume list \<Rightarrow> Value \<Rightarrow> Value" where
  "spec_consumed [] remaining = 0"
| "spec_consumed (pv # pvs) remaining =
     (if remaining \<le> Volume pv then remaining * Price pv
      else Volume pv * Price pv + spec_consumed pvs (remaining - Volume pv))"

definition spec_aggregatePrice :: "PriceVolume list \<Rightarrow> Value \<Rightarrow> Value option" where
  "spec_aggregatePrice pvs Q =
     (case pvs of
        [] \<Rightarrow> Some 0
      | pv # _ \<Rightarrow> if Volume pv \<ge> Q then Some (Price pv)
                 else fixedpoint_Div (spec_consumed pvs Q) Q)"

definition totalVolume :: "PriceVolume list \<Rightarrow> Value" where
  "totalVolume pvs = (\<Sum>pv\<leftarrow>pvs. Volume pv)"

definition totalAmountOf :: "PriceVolume list \<Rightarrow> Value" where
  "totalAmountOf pvs = (\<Sum>pv\<leftarrow>pvs. Volume pv * Price pv)"

definition nonnegVolumes :: "PriceVolume list \<Rightarrow> bool" where
  "nonnegVolumes pvs = list_all (\<lambda>pv. 0 \<le> Volume pv) pvs"

text \<open>
  A well-formed bid side: prices strictly decreasing by level and non-negative, volumes
  non-negative. A well-formed ask side: prices strictly increasing by level, volumes
  non-negative.
\<close>

definition bidSide :: "PriceVolume list \<Rightarrow> bool" where
  "bidSide pvs = (sorted_wrt (\<lambda>a b. Price a > Price b) pvs
                  \<and> list_all (\<lambda>pv. 0 \<le> Price pv) pvs \<and> nonnegVolumes pvs)"

definition askSide :: "PriceVolume list \<Rightarrow> bool" where
  "askSide pvs = (sorted_wrt (\<lambda>a b. Price a < Price b) pvs \<and> nonnegVolumes pvs)"

section \<open>The price aggregator under rounding arithmetic\<close>

text \<open>
  The products and the quotient of \<open>aggregatePrice\<close> are operations of \<open>fixedpoint.Value\<close>,
  which round their result to the representable decimals; how they round is decided in the
  package outside the given sources (the repository builds it in two variants). The
  multiplication and the division are therefore parameters here: \<open>Mul\<close> is \<open>Value.Mul\<close>,
  \<open>Quo\<close> is \<open>Value.Div\<close> for a non-zero divisor. Additions, subtractions and comparisons of
  fixed-point values are exact.
\<close>

record Arith =
  Mul :: "Value \<Rightarrow> Value \<Rightarrow> Value"
  Quo :: "Value \<Rightarrow> Value \<Rightarrow> Value"

definition DivWith :: "Arith \<Rightarrow> Value \<Rightarrow> Value \<Rightarrow> Value option" where
  "DivWith ar x y = (if y = 0 then None else Some (Quo ar x y))"

text \<open>\<open>aggregatePrice\<close> of the source, statement by statement, over the arithmetic \<open>ar\<close>.\<close>

fun aggregateLoopWith :: "Arith \<Rightarrow> PriceVolume list \<Rightarrow> Value \<Rightarrow> Value \<Rightarrow> Value" where
  "aggregateLoopWith ar [] q totalAmount = totalAmount"
| "aggregateLoopWith ar (pv # pvs) q totalAmount =
     (if Volume pv \<ge> q then totalAmount + Mul ar q (Price pv)
      else aggregateLoopWith ar pvs (q - Volume pv) (totalAmount + Mul ar (Volume pv) (Price pv)))"

definition aggregatePriceWith :: "Arith \<Rightarrow> PriceVolume list \<Rightarrow> Value \<Rightarrow> Value option" where
  "aggregatePriceWith ar pvs requiredQuantity =
     (if length pvs = 0 then Some 0
      else if Volume (pvs ! 0) \<ge> requiredQuantity then Some (Price (pvs ! 0))
      else DivWith ar (aggregateLoopWith ar pvs requiredQuantity 0) requiredQuantity)"

text \<open>The exact arithmetic, with which \<open>aggregatePriceWith\<close> is \<open>aggregatePrice\<close> above.\<close>

definition exactArith :: Arith where
  "exactArith = \<lparr>Mul = (\<lambda>x y. x * y), Quo = (\<lambda>x y. x / y)\<rparr>"

text \<open>
  Fixed-point arithmetic with eight decimal places: every product and quotient is
  truncated towards zero to a multiple of \<open>10\<^sup>-\<^sup>8\<close>.
\<close>

definition fixedUnit :: Value where
  "fixedUnit = 1 / 100000000"

definition trunc8 :: "Value \<Rightarrow> Value" where
  "trunc8 x = (if 0 \<le> x then of_int \<lfloor>x * 100000000\<rfloor> / 100000000
               else - (of_int \<lfloor>- x * 100000000\<rfloor> / 100000000))"

definition fixed8 :: Arith where
  "fixed8 = \<lparr>Mul = (\<lambda>x y. trunc8 (x * y)), Quo = (\<lambda>x y. trunc8 (x / y))\<rparr>"

text \<open>
  The slack that rounding leaves in the comparison of two aggregated prices over a side
  of \<open>n\<close> levels, when every product and quotient is within \<open>u\<close> of the exact result.
\<close>

definition roundingSlack :: "Value \<Rightarrow> nat \<Rightarrow> Value \<Rightarrow> Value \<Rightarrow> Value" where
  "roundingSlack u n Q1 Q2 = u * (2 + of_nat n / Q1 + of_nat n / Q2)"

section \<open>Sequence cursor of the Coinbase stream (\<open>pkg/exchange/coinbase/stream_handlers.go\<close>)\<close>
















section \<open>Batch-order response of the Binance futures API (\<open>FuturesBatchOrdersResponse.Unmarshal\<close>)\<close>

text \<open>
  \<open>FuturesOrderResponse\<close> is declared outside the given sources; two of its fields stand
  for the whole struct. \<open>zeroOrder\<close> is its Go zero value, which \<open>make\<close> fills the slice with.
\<close>

record FuturesOrderResponse =
  OrderId :: int
  ClientOrderId :: string

definition zeroOrder :: FuturesOrderResponse where
  "zeroOrder = \<lparr>OrderId = 0, ClientOrderId = []\<rparr>"

text \<open>
  A \<open>json.RawMessage\<close> of the array, described by what the two calls of \<open>json.Unmarshal\<close>
  make of it: \<open>asApiErr\<close> is the decoded \<open>(code, msg)\<close> pair, \<open>None\<close> when decoding into the
  error struct fails; \<open>asOrder\<close> is the decoded order, \<open>None\<close> when that decoding fails.
\<close>

record RawMessage =
  asApiErr :: "(int \<times> string) option"
  asOrder :: "FuturesOrderResponse option"

datatype APIError = APIError int string

datatype UnmarshalError = JsonError | ItemError nat

record FuturesBatchOrdersResponse =
  Orders :: "FuturesOrderResponse list"
  Errors :: "APIError option list"

text \<open>
  The \<open>for i, msg := range rawMsgs\<close> loop; the receiver \<open>f\<close> is mutated in place, so the
  partly filled response is returned together with the error.
\<close>

fun unmarshalItems ::
  "nat \<Rightarrow> RawMessage list \<Rightarrow> FuturesBatchOrdersResponse
     \<Rightarrow> FuturesBatchOrdersResponse \<times> UnmarshalError option" where
  "unmarshalItems i [] f = (f, None)"
| "unmarshalItems i (msg # msgs) f =
     (let apiErr = (case asApiErr msg of
                      Some (code, message) \<Rightarrow>
                        if code \<noteq> 0 \<or> message \<noteq> [] then Some (APIError code message) else None
                    | None \<Rightarrow> None)
      in case apiErr of
           Some e \<Rightarrow> unmarshalItems (Suc i) msgs (f\<lparr>Errors := (Errors f)[i := Some e]\<rparr>)
         | None \<Rightarrow>
            (case asOrder msg of
               None \<Rightarrow> (f, Some (ItemError i))
             | Some order \<Rightarrow> unmarshalItems (Suc i) msgs (f\<lparr>Orders := Orders f @ [order]\<rparr>)))"

text \<open>
  \<open>Unmarshal\<close>: the input is \<open>None\<close> when \<open>data\<close> is not a JSON array, else the array's raw
  items.
\<close>

definition Unmarshal ::
  "FuturesBatchOrdersResponse \<Rightarrow> RawMessage list option
     \<Rightarrow> FuturesBatchOrdersResponse \<times> UnmarshalError option" where
  "Unmarshal f data =
     (case data of
        None \<Rightarrow> (f, Some JsonError)
      | Some rawMsgs \<Rightarrow>
          unmarshalItems 0 rawMsgs
            (f\<lparr>Errors := replicate (length rawMsgs) None,
               Orders := replicate (length rawMsgs) zeroOrder\<rparr>))"

text \<open>A well-formed item is an API error object or decodes as an order.\<close>

definition isApiError :: "RawMessage \<Rightarrow> bool" where
  "isApiError msg =
     (case asApiErr msg of Some (code, message) \<Rightarrow> code \<noteq> 0 \<or> message \<noteq> [] | None \<Rightarrow> False)"

definition wellFormedItem :: "RawMessage \<Rightarrow> bool" where
  "wellFormedItem msg = (isApiError msg \<or> asOrder msg \<noteq> None)"

section \<open>The cross-exchange maker strategy (\<open>pkg/strategy/xmaker/strategy.go\<close>)\<close>

subsection \<open>Data\<close>

datatype SideType = SideTypeBuy | SideTypeSell

datatype OrderType = OrderTypeLimit | OrderTypeMarket

text \<open>
  \<open>types.SubmitOrder\<close> and \<open>types.Order\<close> (declared outside the given sources), with the
  fields the strategy sets; \<open>OrdType\<close> and \<open>OrdPrice\<close> are the source's \<open>Type\<close> and \<open>Price\<close>.
  A market order is built without a price and carries the zero value.
\<close>

record SubmitOrder =
  OrdType :: OrderType
  Side :: SideType
  OrdPrice :: Value
  Quantity :: Value

record Order =
  OrderID :: nat
  Submit :: SubmitOrder

text \<open>
  \<open>types.Market\<close> (declared outside the given sources). Its method \<open>TruncateQuantity\<close> is
  a field of the record, so every result below holds for whatever truncation the market
  applies.
\<close>

record Market =
  MinQuantity :: Value
  MinNotional :: Value
  TickSize :: Value
  TruncateQuantity :: "Value \<Rightarrow> Value"

text \<open>
  Modelled from the spec: the heartbeat detector (\<open>types.PriceHeartBeat\<close>, outside the given
  sources). Per side it keeps the last observed best price and the instant of its last
  change; \<open>Update\<close> records a changed price and otherwise reports stale when
  \<open>now - last_change > timeout\<close>. Instants are in milliseconds. The second component of
  the result is the error: \<open>True\<close> when the price is stale.
\<close>

record PriceHeartBeat =
  lastObserved :: "Value option"
  lastChange :: int
  timeout :: int

definition priceUpdateTimeout :: int where
  "priceUpdateTimeout = 30 * 1000"

definition NewPriceHeartBeat :: "int \<Rightarrow> PriceHeartBeat" where
  "NewPriceHeartBeat t = \<lparr>lastObserved = None, lastChange = 0, timeout = t\<rparr>"

definition HeartBeat_Update :: "PriceHeartBeat \<Rightarrow> int \<Rightarrow> PriceVolume \<Rightarrow> PriceHeartBeat \<times> bool" where
  "HeartBeat_Update hb now current =
     (if lastObserved hb \<noteq> Some (Price current)
      then (hb\<lparr>lastObserved := Some (Price current), lastChange := now\<rparr>, False)
      else (hb, now - lastChange hb > timeout hb))"

text \<open>
  Modelled from the spec: the quota ledger (\<open>bbgo.QuotaTransaction\<close>, outside the given
  sources). \<open>Lock\<close> succeeds iff the remaining available amount exceeds the request;
  \<open>Commit\<close> promotes the locks; \<open>Rollback\<close> gives the latest locks back.
\<close>

record Quota =
  Available :: Value
  Locked :: Value

record QuotaTransaction =
  BaseAsset :: Quota
  QuoteAsset :: Quota

definition emptyQuota :: QuotaTransaction where
  "emptyQuota = \<lparr>BaseAsset = \<lparr>Available = 0, Locked = 0\<rparr>,
                  QuoteAsset = \<lparr>Available = 0, Locked = 0\<rparr>\<rparr>"

definition Quota_Add :: "Quota \<Rightarrow> Value \<Rightarrow> Quota" where
  "Quota_Add q fund = q\<lparr>Available := Available q + fund\<rparr>"

definition Quota_Lock :: "Quota \<Rightarrow> Value \<Rightarrow> bool \<times> Quota" where
  "Quota_Lock q fund =
     (if Available q > fund
      then (True, q\<lparr>Available := Available q - fund, Locked := Locked q + fund\<rparr>)
      else (False, q))"

definition Quota_Commit :: "Quota \<Rightarrow> Quota" where
  "Quota_Commit q = q\<lparr>Locked := 0\<rparr>"

definition Quota_Rollback :: "Quota \<Rightarrow> Quota" where
  "Quota_Rollback q = q\<lparr>Available := Available q + Locked q, Locked := 0\<rparr>"

definition Commit :: "QuotaTransaction \<Rightarrow> QuotaTransaction" where
  "Commit t = \<lparr>BaseAsset = Quota_Commit (BaseAsset t), QuoteAsset = Quota_Commit (QuoteAsset t)\<rparr>"

definition Rollback :: "QuotaTransaction \<Rightarrow> QuotaTransaction" where
  "Rollback t = \<lparr>BaseAsset = Quota_Rollback (BaseAsset t), QuoteAsset = Quota_Rollback (QuoteAsset t)\<rparr>"

text \<open>\<open>rate.Reservation\<close>: whether the reservation is granted, and the delay to wait.\<close>

record Reservation =
  OK :: bool
  Delay :: int

text \<open>
  The strategy: its configuration and the private state that the quoting and hedging
  passes read and write. \<open>StrategyQuantity\<close> is the source's field \<open>Quantity\<close>;
  \<open>PositionBase\<close> is \<open>s.Position.GetBase()\<close>; \<open>QuantityScale\<close> is \<open>None\<close> for the nil
  pointer and otherwise the function \<open>Scale\<close>, \<open>None\<close> being its error; \<open>NumLayers\<close> is
  the number of rounds of the loop \<open>for i := 0; i < s.NumLayers; i++\<close>;
  \<open>activeMakerOrders\<close> and \<open>orderStore\<close> hold the orders added to them, in order.
\<close>

record Strategy =
  BidMargin :: Value
  AskMargin :: Value
  UseDepthPrice :: bool
  DepthQuantity :: Value
  EnableBollBandMargin :: bool
  BollBandMargin :: Value
  BollBandMarginFactor :: Value
  StopHedgeQuoteBalance :: Value
  StopHedgeBaseBalance :: Value
  StrategyQuantity :: Value
  QuantityMultiplier :: Value
  QuantityScale :: "(nat \<Rightarrow> Value option) option"
  MaxExposurePosition :: Value
  DisableHedge :: bool
  NumLayers :: nat
  Pips :: Value
  makerMarket :: Market
  sourceMarket :: Market
  PositionBase :: Value
  CoveredPosition :: Value
  activeMakerOrders :: "Order list"
  hedgeErrorRateReservation :: "Reservation option"
  orderStore :: "Order list"
  askPriceHeartBeat :: PriceHeartBeat
  bidPriceHeartBeat :: PriceHeartBeat
  lastPrice :: Value

text \<open>
  What the surroundings answer during one pass: the exchanges, the accounts, the source
  book, the clock. \<open>gracefulCancel\<close> maps the active maker orders to those still active
  after the cancel and to whether the cancel failed; \<open>circuitBreakerHalted\<close> is false
  also when no circuit breaker is configured; the four \<open>Available\<close> fields are the
  available amount of the balance, \<open>None\<close> when the account has no such balance;
  \<open>AdjustQuantityByMaxAmount\<close> is the function of package \<open>bbgo\<close>, outside the given
  sources; \<open>formatOrdersFails\<close> is whether \<open>FormatOrders\<close> returns an error (it fills the
  textual fields of the orders, which the model does not carry); \<open>batchPlaceOrder\<close> maps
  the submitted orders to the orders the exchange created and to whether it returned an
  error; \<open>limiterReserve\<close> is the reservation the hedge-error limiter hands out.
\<close>

record Env =
  gracefulCancel :: "Order list \<Rightarrow> Order list \<times> bool"
  circuitBreakerHalted :: bool
  now :: int
  bookBids :: "PriceVolume list"
  bookAsks :: "PriceVolume list"
  makerBaseAvailable :: "Value option"
  makerQuoteAvailable :: "Value option"
  sourceBaseAvailable :: "Value option"
  sourceQuoteAvailable :: "Value option"
  lastDownBand :: Value
  lastUpBand :: Value
  AdjustQuantityByMaxAmount :: "Value \<Rightarrow> Value \<Rightarrow> Value \<Rightarrow> Value"
  formatOrdersFails :: bool
  batchPlaceOrder :: "SubmitOrder list \<Rightarrow> Order list \<times> bool"
  limiterReserve :: Reservation

definition lastPriceModifier :: Value where
  "lastPriceModifier = 1001 / 1000"

definition minGap :: Value where
  "minGap = 102 / 100"

subsection \<open>The hedging pass\<close>

text \<open>
  \<open>sourceBook.BestAsk()\<close> and \<open>sourceBook.BestBid()\<close> on the copy of depth 1: the first level
  of the side, if any.
\<close>

definition BestAsk :: "Env \<Rightarrow> PriceVolume option" where
  "BestAsk env = (case bookAsks env of [] \<Rightarrow> None | pv # _ \<Rightarrow> Some pv)"

definition BestBid :: "Env \<Rightarrow> PriceVolume option" where
  "BestBid env = (case bookBids env of [] \<Rightarrow> None | pv # _ \<Rightarrow> Some pv)"

text \<open>
  The end of \<open>Hedge\<close>, from the construction of the market order on. The result is the
  new state and the orders handed to \<open>BatchPlaceOrder\<close>. The callback
  \<open>orderCreateCallback\<close> runs for every created order.
\<close>

definition submitHedgeOrder :: "Env \<Rightarrow> Strategy \<Rightarrow> SideType \<Rightarrow> Value \<Rightarrow> Strategy \<times> SubmitOrder list" where
  "submitHedgeOrder env s side quantity =
     (let submitOrders = [\<lparr>OrdType = OrderTypeMarket, Side = side, OrdPrice = 0, Quantity = quantity\<rparr>]
      in if formatOrdersFails env then (s, [])
         else
           let (createdOrders, err) = batchPlaceOrder env submitOrders;
               s1 = s\<lparr>orderStore := orderStore s @ createdOrders,
                      activeMakerOrders := activeMakerOrders s @ createdOrders\<rparr>
           in if err then (s1\<lparr>hedgeErrorRateReservation := Some (limiterReserve env)\<rparr>, submitOrders)
              else if side = SideTypeSell
                   then (s1\<lparr>CoveredPosition := CoveredPosition s1 + quantity\<rparr>, submitOrders)
                   else (s1\<lparr>CoveredPosition := CoveredPosition s1 + (- quantity)\<rparr>, submitOrders))"

text \<open>
  \<open>Hedge\<close>. The deferred \<open>tradeCollector.Process()\<close> folds in the trades that arrived during
  the pass (\<open>core.TradeCollector\<close> is outside the given sources); the model describes a
  pass during which no trade arrives.
\<close>

definition Hedge :: "Env \<Rightarrow> Strategy \<Rightarrow> Value \<Rightarrow> Strategy \<times> SubmitOrder list" where
  "Hedge env s pos =
     (if pos = 0 then (s, [])
      else
        let quantity0 = \<bar>pos\<bar>;
            side = (if pos < 0 then SideTypeSell else SideTypeBuy);
            lastPrice0 =
              (case side of
                 SideTypeBuy \<Rightarrow>
                   (case BestAsk env of Some bestAsk \<Rightarrow> Price bestAsk | None \<Rightarrow> lastPrice s)
               | SideTypeSell \<Rightarrow>
                   (case BestBid env of Some bestBid \<Rightarrow> Price bestBid | None \<Rightarrow> lastPrice s));
            notional = quantity0 * lastPrice0
        in if notional \<le> MinNotional (sourceMarket s) then (s, [])
           else
             let quantity1 =
                   (case side of
                      SideTypeBuy \<Rightarrow>
                        (case sourceQuoteAvailable env of
                           Some available \<Rightarrow>
                             if available < notional
                             then TruncateQuantity (sourceMarket s)
                                    (AdjustQuantityByMaxAmount env quantity0
                                       (lastPrice0 * lastPriceModifier) available)
                             else quantity0
                         | None \<Rightarrow> quantity0)
                    | SideTypeSell \<Rightarrow>
                        (case sourceBaseAvailable env of
                           Some available \<Rightarrow> if available < quantity0 then available else quantity0
                         | None \<Rightarrow> quantity0));
                 quantity = TruncateQuantity (sourceMarket s) quantity1
             in if notional \<le> MinNotional (sourceMarket s) * minGap then (s, [])
                else if quantity \<le> MinQuantity (sourceMarket s) * minGap then (s, [])
                else
                  (case hedgeErrorRateReservation s of
                     Some r \<Rightarrow>
                       if \<not> OK r then (s, [])
                       else submitHedgeOrder env (s\<lparr>hedgeErrorRateReservation := None\<rparr>) side quantity
                   | None \<Rightarrow> submitHedgeOrder env s side quantity))"

text \<open>
  One tick of \<open>hedgeWorker\<close>, after \<open>tradeCollector.Process()\<close> has folded the pending trades
  into the position and the covered position.
\<close>

definition hedgeWorkerTick :: "Env \<Rightarrow> Strategy \<Rightarrow> Strategy \<times> SubmitOrder list" where
  "hedgeWorkerTick env s =
     (let position = PositionBase s;
          uncoverPosition = position - CoveredPosition s;
          absPos = \<bar>uncoverPosition\<bar>
      in if \<not> DisableHedge s \<and> absPos > MinQuantity (sourceMarket s)
         then Hedge env s (- uncoverPosition)
         else (s, []))"

subsection \<open>The quoting pass\<close>

text \<open>
  Modelled from the spec: \<open>BestBidAndAsk\<close>, \<open>CopyDepth\<close> and \<open>IsValid\<close> of the source book
  (\<open>types.StreamOrderBook\<close>, outside the given sources). The best bid and ask are the first
  levels of the two sides, present when both sides are non-empty; the copy to depth 10
  keeps the first ten levels of each side; a book is invalid when it is crossed or empty.
\<close>

definition BestBidAndAsk :: "Env \<Rightarrow> (PriceVolume \<times> PriceVolume) option" where
  "BestBidAndAsk env =
     (case (bookBids env, bookAsks env) of
        (bestBid # _, bestAsk # _) \<Rightarrow> Some (bestBid, bestAsk)
      | _ \<Rightarrow> None)"

definition IsValid :: "PriceVolume list \<Rightarrow> PriceVolume list \<Rightarrow> bool" where
  "IsValid bids asks =
     (case (bids, asks) of
        (bestBid # _, bestAsk # _) \<Rightarrow> \<not> Price bestBid > Price bestAsk
      | _ \<Rightarrow> False)"

text \<open>
  The balance gates of \<open>updateQuote\<close>: the two disable flags (bid, ask) and the two quota
  ledgers (maker, hedge) after the maker and the source balances have been read.
\<close>

definition makerBalanceGate :: "Env \<Rightarrow> Strategy \<Rightarrow> (bool \<times> bool) \<times> QuotaTransaction" where
  "makerBalanceGate env s =
     (let (disableMakerAsk, makerQuota) =
            (case makerBaseAvailable env of
               Some available \<Rightarrow>
                 if available > MinQuantity (makerMarket s)
                 then (False, emptyQuota\<lparr>BaseAsset := Quota_Add (BaseAsset emptyQuota) available\<rparr>)
                 else (True, emptyQuota)
             | None \<Rightarrow> (False, emptyQuota))
      in case makerQuoteAvailable env of
           Some available \<Rightarrow>
             if available > MinNotional (makerMarket s)
             then ((False, disableMakerAsk),
                   makerQuota\<lparr>QuoteAsset := Quota_Add (QuoteAsset makerQuota) available\<rparr>)
             else ((True, disableMakerAsk), makerQuota)
         | None \<Rightarrow> ((False, disableMakerAsk), makerQuota))"

definition hedgeBalanceGate ::
  "Env \<Rightarrow> Strategy \<Rightarrow> bool \<times> bool \<Rightarrow> (bool \<times> bool) \<times> QuotaTransaction" where
  "hedgeBalanceGate env s d =
     (let (disableMakerBid0, disableMakerAsk0) = d;
          (disableMakerBid, hedgeQuota) =
            (case sourceBaseAvailable env of
               Some available \<Rightarrow>
                 if StopHedgeBaseBalance s > 0
                 then
                   (let minAvailable = StopHedgeBaseBalance s + MinQuantity (sourceMarket s)
                    in if available > minAvailable
                       then (disableMakerBid0,
                             emptyQuota\<lparr>BaseAsset :=
                               Quota_Add (BaseAsset emptyQuota) (available - minAvailable)\<rparr>)
                       else (True, emptyQuota))
                 else if available > MinQuantity (sourceMarket s)
                 then (disableMakerBid0,
                       emptyQuota\<lparr>BaseAsset := Quota_Add (BaseAsset emptyQuota) available\<rparr>)
                 else (True, emptyQuota)
             | None \<Rightarrow> (disableMakerBid0, emptyQuota))
      in case sourceQuoteAvailable env of
           Some available \<Rightarrow>
             if StopHedgeQuoteBalance s > 0
             then
               (let minAvailable = StopHedgeQuoteBalance s + MinNotional (sourceMarket s)
                in if available > minAvailable
                   then ((disableMakerBid, disableMakerAsk0),
                         hedgeQuota\<lparr>QuoteAsset :=
                           Quota_Add (QuoteAsset hedgeQuota) (available - minAvailable)\<rparr>)
                   else ((disableMakerBid, True), hedgeQuota))
             else if available > MinNotional (sourceMarket s)
             then ((disableMakerBid, disableMakerAsk0),
                   hedgeQuota\<lparr>QuoteAsset := Quota_Add (QuoteAsset hedgeQuota) available\<rparr>)
             else ((disableMakerBid, True), hedgeQuota)
         | None \<Rightarrow> ((disableMakerBid, disableMakerAsk0), hedgeQuota))"

text \<open>
  The exposure check of \<open>updateQuote\<close>, on the pair of disable flags (bid, ask), with the
  comparisons and the \<open>else if\<close> of the source.
\<close>

definition exposureGate :: "Strategy \<Rightarrow> bool \<times> bool \<Rightarrow> bool \<times> bool" where
  "exposureGate s d =
     (let (disableMakerBid, disableMakerAsk) = d
      in if MaxExposurePosition s > 0
         then
           (let pos = PositionBase s
            in if pos > - MaxExposurePosition s then (disableMakerBid, True)
               else if pos > MaxExposurePosition s then (True, disableMakerAsk)
               else (disableMakerBid, disableMakerAsk))
         else (disableMakerBid, disableMakerAsk))"

text \<open>
  What one quoting pass works with once the gates are passed: the flags, the margins and
  pips after the Bollinger adjustment, and the copied source book.
\<close>

record LayerCtx =
  disableMakerBid :: bool
  disableMakerAsk :: bool
  bidMargin :: Value
  askMargin :: Value
  pips :: Value
  sourceBids :: "PriceVolume list"
  sourceAsks :: "PriceVolume list"

text \<open>The variables of the layer loop.\<close>

record LayerState =
  bidQuantity :: Value
  askQuantity :: Value
  accumulativeBidQuantity :: Value
  accumulativeAskQuantity :: Value
  bidPrice :: Value
  askPrice :: Value
  makerQuota :: QuotaTransaction
  hedgeQuota :: QuotaTransaction
  submitOrders :: "SubmitOrder list"

text \<open>
  The outcome of a part of the loop body: \<open>ScaleError\<close> when \<open>QuantityScale.Scale\<close> fails
  and \<open>updateQuote\<close> returns, else the loop variables. Around it, \<open>None\<close> is a division by
  zero.
\<close>

datatype LayerOutcome = ScaleError | Next LayerState

text \<open>
  The adjustment by the Bollinger bands: \<open>Some None\<close> when a band is zero and the pass is
  skipped, else the bid margin, the ask margin and the pips.
\<close>

definition bollBandAdjust ::
  "Env \<Rightarrow> Strategy \<Rightarrow> Value \<Rightarrow> Value \<Rightarrow> (Value \<times> Value \<times> Value) option option" where
  "bollBandAdjust env s bestBidPrice bestAskPrice =
     (if EnableBollBandMargin s
      then
        if lastUpBand env = 0 \<or> lastDownBand env = 0 then Some None
        else
          do {
            (askMargin1, pips1) \<leftarrow>
              (if bestBidPrice < lastDownBand env
               then do {
                 ratio \<leftarrow> fixedpoint_Div (lastDownBand env) bestBidPrice;
                 Some (AskMargin s + BollBandMargin s * ratio * BollBandMarginFactor s, Pips s * ratio)
               }
               else Some (AskMargin s, Pips s));
            (bidMargin1, pips2) \<leftarrow>
              (if bestAskPrice > lastUpBand env
               then do {
                 ratio \<leftarrow> fixedpoint_Div bestAskPrice (lastUpBand env);
                 Some (BidMargin s + BollBandMargin s * ratio * BollBandMarginFactor s, pips1 * ratio)
               }
               else Some (BidMargin s, pips1));
            Some (Some (bidMargin1, askMargin1, pips2))
          }
      else Some (Some (BidMargin s, AskMargin s, Pips s)))"

text \<open>The bid part of the loop body for layer \<open>i\<close>, entered when the bid is not disabled.\<close>

definition bidLayer :: "Strategy \<Rightarrow> LayerCtx \<Rightarrow> nat \<Rightarrow> LayerState \<Rightarrow> LayerOutcome option" where
  "bidLayer s c i st =
     (case (case QuantityScale s of None \<Rightarrow> Some (bidQuantity st) | Some scale \<Rightarrow> scale (i + 1)) of
        None \<Rightarrow> Some ScaleError
      | Some bidQuantity1 \<Rightarrow>
          do {
            let acc = accumulativeBidQuantity st + bidQuantity1;
            price0 \<leftarrow>
              (if UseDepthPrice s
               then if DepthQuantity s > 0 then aggregatePrice (sourceBids c) (DepthQuantity s)
                    else aggregatePrice (sourceBids c) acc
               else Some (bidPrice st));
            let price1 = price0 * (1 - bidMargin c);
            let price2 = (if i > 0 \<and> pips c > 0
                          then price1 - pips c * (of_nat i * TickSize (makerMarket s))
                          else price1);
            let (locked1, makerQuote) = Quota_Lock (QuoteAsset (makerQuota st)) (bidQuantity1 * price2);
            let (locked2, hedgeBase) =
                  (if locked1 then Quota_Lock (BaseAsset (hedgeQuota st)) bidQuantity1
                   else (False, BaseAsset (hedgeQuota st)));
            let makerQuota1 = (makerQuota st)\<lparr>QuoteAsset := makerQuote\<rparr>;
            let hedgeQuota1 = (hedgeQuota st)\<lparr>BaseAsset := hedgeBase\<rparr>;
            let st1 = (if locked1 \<and> locked2
                       then st\<lparr>submitOrders := submitOrders st @
                                   [\<lparr>OrdType = OrderTypeLimit, Side = SideTypeBuy,
                                     OrdPrice = price2, Quantity = bidQuantity1\<rparr>],
                                 makerQuota := Commit makerQuota1,
                                 hedgeQuota := Commit hedgeQuota1\<rparr>
                       else st\<lparr>makerQuota := Rollback makerQuota1,
                                 hedgeQuota := Rollback hedgeQuota1\<rparr>);
            Some (Next (st1\<lparr>accumulativeBidQuantity := acc,
                            bidPrice := price2,
                            bidQuantity := (if QuantityMultiplier s > 0
                                            then bidQuantity1 * QuantityMultiplier s
                                            else bidQuantity1)\<rparr>))
          })"

text \<open>The ask part of the loop body for layer \<open>i\<close>, entered when the ask is not disabled.\<close>

definition askLayer :: "Strategy \<Rightarrow> LayerCtx \<Rightarrow> nat \<Rightarrow> LayerState \<Rightarrow> LayerOutcome option" where
  "askLayer s c i st =
     (case (case QuantityScale s of None \<Rightarrow> Some (askQuantity st) | Some scale \<Rightarrow> scale (i + 1)) of
        None \<Rightarrow> Some ScaleError
      | Some askQuantity1 \<Rightarrow>
          do {
            let acc = accumulativeAskQuantity st + askQuantity1;
            price0 \<leftarrow>
              (if UseDepthPrice s
               then if DepthQuantity s > 0 then aggregatePrice (sourceAsks c) (DepthQuantity s)
                    else aggregatePrice (sourceAsks c) acc
               else Some (askPrice st));
            let price1 = price0 * (1 + askMargin c);
            let price2 = (if i > 0 \<and> pips c > 0
                          then price1 + pips c * (of_nat i * TickSize (makerMarket s))
                          else price1);
            let (locked1, makerBase) = Quota_Lock (BaseAsset (makerQuota st)) askQuantity1;
            let (locked2, hedgeQuote) =
                  (if locked1 then Quota_Lock (QuoteAsset (hedgeQuota st)) (askQuantity1 * price2)
                   else (False, QuoteAsset (hedgeQuota st)));
            let makerQuota1 = (makerQuota st)\<lparr>BaseAsset := makerBase\<rparr>;
            let hedgeQuota1 = (hedgeQuota st)\<lparr>QuoteAsset := hedgeQuote\<rparr>;
            let st1 = (if locked1 \<and> locked2
                       then st\<lparr>submitOrders := submitOrders st @
                                   [\<lparr>OrdType = OrderTypeLimit, Side = SideTypeSell,
                                     OrdPrice = price2, Quantity = askQuantity1\<rparr>],
                                 makerQuota := Commit makerQuota1,
                                 hedgeQuota := Commit hedgeQuota1\<rparr>
                       else st\<lparr>makerQuota := Rollback makerQuota1,
                                 hedgeQuota := Rollback hedgeQuota1\<rparr>);
            Some (Next (st1\<lparr>accumulativeAskQuantity := acc,
                            askPrice := price2,
                            askQuantity := (if QuantityMultiplier s > 0
                                            then askQuantity1 * QuantityMultiplier s
                                            else askQuantity1)\<rparr>))
          })"

text \<open>
  The loop \<open>for i := 0; i < s.NumLayers; i++\<close>: \<open>layerLoop s c i n st\<close> runs the layers
  \<open>i, \<dots>, i + n - 1\<close>.
\<close>

fun layerLoop :: "Strategy \<Rightarrow> LayerCtx \<Rightarrow> nat \<Rightarrow> nat \<Rightarrow> LayerState \<Rightarrow> LayerOutcome option" where
  "layerLoop s c i 0 st = Some (Next st)"
| "layerLoop s c i (Suc n) st =
     (case (if disableMakerBid c then Some (Next st) else bidLayer s c i st) of
        None \<Rightarrow> None
      | Some ScaleError \<Rightarrow> Some ScaleError
      | Some (Next st1) \<Rightarrow>
          (case (if disableMakerAsk c then Some (Next st1) else askLayer s c i st1) of
             None \<Rightarrow> None
           | Some ScaleError \<Rightarrow> Some ScaleError
           | Some (Next st2) \<Rightarrow> layerLoop s c (Suc i) n st2))"

text \<open>
  The second half of \<open>updateQuote\<close>, from the balance gates on. The result is the new
  state and the orders handed to \<open>BatchPlaceOrder\<close> on the maker exchange; \<open>None\<close> is a
  division by zero.
\<close>

definition generateAndSubmit ::
  "Env \<Rightarrow> Strategy \<Rightarrow> PriceVolume \<Rightarrow> PriceVolume \<Rightarrow> PriceVolume list \<Rightarrow> PriceVolume list
     \<Rightarrow> (Strategy \<times> SubmitOrder list) option" where
  "generateAndSubmit env s bestBid bestAsk bids asks =
     (let (d0, makerQuota0) = makerBalanceGate env s;
          (d1, hedgeQuota0) = hedgeBalanceGate env s d0;
          (disableBid, disableAsk) = exposureGate s d1
      in if disableAsk \<and> disableBid then Some (s, [])
         else
           (case bollBandAdjust env s (Price bestBid) (Price bestAsk) of
              None \<Rightarrow> None
            | Some None \<Rightarrow> Some (s, [])
            | Some (Some (bidMargin0, askMargin0, pips0)) \<Rightarrow>
                (case layerLoop s
                        \<lparr>disableMakerBid = disableBid, disableMakerAsk = disableAsk,
                         bidMargin = bidMargin0, askMargin = askMargin0, pips = pips0,
                         sourceBids = bids, sourceAsks = asks\<rparr>
                        0 (NumLayers s)
                        \<lparr>bidQuantity = StrategyQuantity s, askQuantity = StrategyQuantity s,
                         accumulativeBidQuantity = 0, accumulativeAskQuantity = 0,
                         bidPrice = Price bestBid, askPrice = Price bestAsk,
                         makerQuota = makerQuota0, hedgeQuota = hedgeQuota0,
                         submitOrders = []\<rparr> of
                   None \<Rightarrow> None
                 | Some ScaleError \<Rightarrow> Some (s, [])
                 | Some (Next st) \<Rightarrow>
                     if length (submitOrders st) = 0 then Some (s, [])
                     else if formatOrdersFails env then Some (s, [])
                     else
                       (let (createdOrders, err) = batchPlaceOrder env (submitOrders st)
                        in Some (s\<lparr>orderStore := orderStore s @ createdOrders,
                                   activeMakerOrders := activeMakerOrders s @ createdOrders\<rparr>,
                                 submitOrders st)))))"

text \<open>
  \<open>updateQuote\<close>. As for \<open>Hedge\<close>, the deferred \<open>tradeCollector.Process()\<close> is outside the
  model.
\<close>

definition updateQuote :: "Env \<Rightarrow> Strategy \<Rightarrow> (Strategy \<times> SubmitOrder list) option" where
  "updateQuote env s =
     (let (remaining, cancelErr) = gracefulCancel env (activeMakerOrders s);
          s0 = s\<lparr>activeMakerOrders := remaining\<rparr>
      in if cancelErr then Some (s0, [])
         else if length remaining > 0 then Some (s0, [])
         else if circuitBreakerHalted env then Some (s0, [])
         else
           (case BestBidAndAsk env of
              None \<Rightarrow> Some (s0, [])
            | Some (bestBid, bestAsk) \<Rightarrow>
                let s1 = s0\<lparr>lastPrice := (Price bestBid + Price bestAsk) / 2\<rparr>;
                    (bidHB, bidErr) = HeartBeat_Update (bidPriceHeartBeat s1) (now env) bestBid;
                    s2 = s1\<lparr>bidPriceHeartBeat := bidHB\<rparr>
                in if bidErr then Some (s2, [])
                   else
                     let (askHB, askErr) = HeartBeat_Update (askPriceHeartBeat s2) (now env) bestAsk;
                         s3 = s2\<lparr>askPriceHeartBeat := askHB\<rparr>
                     in if askErr then Some (s3, [])
                        else
                          let bids = take 10 (bookBids env);
                              asks = take 10 (bookAsks env)
                          in if \<not> IsValid bids asks then Some (s3, [])
                             else generateAndSubmit env s3 bestBid bestAsk bids asks))"

subsection \<open>A concrete scenario\<close>

text \<open>
  Modelled from the spec: instances of the two helpers that the model takes as parameters.
  \<open>AdjustQuantityByMaxAmount\<close> reduces the quantity so that \<open>quantity * price\<close> does not
  exceed the maximal amount; \<open>TruncateQuantity\<close> snaps a quantity to the step size by
  truncation, never rounding up.
\<close>

definition spec_AdjustQuantityByMaxAmount :: "Value \<Rightarrow> Value \<Rightarrow> Value \<Rightarrow> Value" where
  "spec_AdjustQuantityByMaxAmount quantity currentPrice maxAmount =
     (if quantity * currentPrice \<le> maxAmount then quantity else maxAmount / currentPrice)"

definition spec_TruncateQuantity :: "Value \<Rightarrow> Value \<Rightarrow> Value" where
  "spec_TruncateQuantity stepSize quantity = of_int \<lfloor>quantity / stepSize\<rfloor> * stepSize"

text \<open>
  A market with minimal quantity 0.001, minimal notional 10, tick size 0.01 and step size
  0.001; a strategy with the default margins, one layer of quantity 0.1 and a maximal
  exposure of 1; surroundings with the books of the strategy's test, ample balances, and
  exchanges that create every submitted order.
\<close>

definition demoMarket :: Market where
  "demoMarket = \<lparr>MinQuantity = 1 / 1000, MinNotional = 10, TickSize = 1 / 100,
                  TruncateQuantity = spec_TruncateQuantity (1 / 1000)\<rparr>"

definition demoStrategy :: Strategy where
  "demoStrategy =
     \<lparr>BidMargin = 3 / 1000, AskMargin = 3 / 1000, UseDepthPrice = False, DepthQuantity = 0,
      EnableBollBandMargin = False, BollBandMargin = 1 / 1000, BollBandMarginFactor = 1,
      StopHedgeQuoteBalance = 0, StopHedgeBaseBalance = 0, StrategyQuantity = 1 / 10,
      QuantityMultiplier = 0, QuantityScale = None, MaxExposurePosition = 1,
      DisableHedge = False, NumLayers = 1, Pips = 0,
      makerMarket = demoMarket, sourceMarket = demoMarket,
      PositionBase = 0, CoveredPosition = 0, activeMakerOrders = [],
      hedgeErrorRateReservation = None, orderStore = [],
      askPriceHeartBeat = NewPriceHeartBeat priceUpdateTimeout,
      bidPriceHeartBeat = NewPriceHeartBeat priceUpdateTimeout,
      lastPrice = 0\<rparr>"

definition demoEnv :: Env where
  "demoEnv =
     \<lparr>gracefulCancel = (\<lambda>orders. ([], False)), circuitBreakerHalted = False, now = 1000,
      bookBids = [\<lparr>Price = 1300, Volume = 1\<rparr>, \<lparr>Price = 1200, Volume = 2\<rparr>,
                  \<lparr>Price = 1100, Volume = 3\<rparr>],
      bookAsks = [\<lparr>Price = 1301, Volume = 1\<rparr>, \<lparr>Price = 1400, Volume = 2\<rparr>,
                  \<lparr>Price = 1500, Volume = 3\<rparr>],
      makerBaseAvailable = Some 10, makerQuoteAvailable = Some 100000,
      sourceBaseAvailable = Some 10, sourceQuoteAvailable = Some 100000,
      lastDownBand = 0, lastUpBand = 0,
      AdjustQuantityByMaxAmount = spec_AdjustQuantityByMaxAmount,
      formatOrdersFails = False,
      batchPlaceOrder = (\<lambda>orders. (map (\<lambda>order. \<lparr>OrderID = 1, Submit = order\<rparr>) orders, False)),
      limiterReserve = \<lparr>OK = True, Delay = 0\<rparr>\<rparr>"

section \<open>Properties of the price aggregator\<close>

lemma aggregateLoop_acc:
  "aggregateLoop pvs q acc = acc + spec_consumed pvs q"
  by (induction pvs arbitrary: q acc) auto

lemma spec_consumed_shortfall:
  "nonnegVolumes pvs \<Longrightarrow> totalVolume pvs < q \<Longrightarrow> spec_consumed pvs q = totalAmountOf pvs"
proof (induction pvs arbitrary: q)
  case Nil
  then show ?case by (simp add: totalAmountOf_def)
next
  case (Cons pv pvs)
  from Cons.prems have nn: "0 \<le> Volume pv" "nonnegVolumes pvs"
    by (simp_all add: nonnegVolumes_def)
  from Cons.prems have tot: "Volume pv + totalVolume pvs < q"
    by (simp add: totalVolume_def)
  have "0 \<le> totalVolume pvs"
    using nn(2) unfolding totalVolume_def nonnegVolumes_def
    by (induction pvs) auto
  with tot have lt: "Volume pv < q" and rest: "totalVolume pvs < q - Volume pv"
    by linarith+
  from Cons.IH [OF nn(2) rest] lt show ?case
    by (simp add: totalAmountOf_def)
qed

text \<open>
  Claim C3. For every list of levels and required quantity \<open>Q\<close>, \<open>aggregatePrice\<close> agrees
  with the specification's contract: zero on the empty list; the first level's price when
  that level's volume is at least \<open>Q\<close>; otherwise the amount accumulated over the consumed
  levels (the last one only for the residual) divided by \<open>Q\<close>. When the whole book (of
  non-negative volumes) holds less than \<open>Q\<close>, the result is the amount of the whole book
  divided by \<open>Q\<close>.
\<close>

theorem aggregatePrice_contract:
  "aggregatePrice pvs Q = spec_aggregatePrice pvs Q
   \<and> (pvs = [] \<longrightarrow> aggregatePrice pvs Q = Some 0)
   \<and> (pvs \<noteq> [] \<and> Volume (hd pvs) \<ge> Q \<longrightarrow> aggregatePrice pvs Q = Some (Price (hd pvs)))
   \<and> (pvs \<noteq> [] \<and> \<not> Volume (hd pvs) \<ge> Q \<longrightarrow>
        aggregatePrice pvs Q = fixedpoint_Div (spec_consumed pvs Q) Q)
   \<and> (nonnegVolumes pvs \<and> totalVolume pvs < Q \<longrightarrow>
        aggregatePrice pvs Q = Some (totalAmountOf pvs / Q))"
proof (cases pvs)
  case Nil
  then show ?thesis
    by (simp add: aggregatePrice_def spec_aggregatePrice_def totalAmountOf_def)
next
  case (Cons pv rest)
  have eq: "aggregatePrice pvs Q = spec_aggregatePrice pvs Q"
    using Cons by (simp add: aggregatePrice_def spec_aggregatePrice_def aggregateLoop_acc)
  have first: "Volume pv \<ge> Q \<Longrightarrow> aggregatePrice pvs Q = Some (Price pv)"
    using Cons by (simp add: aggregatePrice_def)
  have other: "\<not> Volume pv \<ge> Q \<Longrightarrow>
      aggregatePrice pvs Q = fixedpoint_Div (spec_consumed pvs Q) Q"
    using Cons by (simp add: aggregatePrice_def aggregateLoop_acc)
  have short: "aggregatePrice pvs Q = Some (totalAmountOf pvs / Q)"
    if nn: "nonnegVolumes pvs" and lt: "totalVolume pvs < Q"
  proof -
    have v0: "0 \<le> Volume pv" and nnr: "nonnegVolumes rest"
      using nn Cons by (simp_all add: nonnegVolumes_def)
    have "0 \<le> totalVolume rest"
      using nnr unfolding totalVolume_def nonnegVolumes_def
      by (induction rest) auto
    with lt Cons v0 have "Volume pv < Q" and "Q \<noteq> 0"
      by (auto simp: totalVolume_def)
    then show ?thesis
      using other spec_consumed_shortfall [OF nn lt]
      by (simp add: fixedpoint_Div_def)
  qed
  show ?thesis
    using Cons eq first other short by simp
qed

theorem aggregatePrice_contract_witness:
  "aggregatePrice [\<lparr>Price = 1000, Volume = 1\<rparr>, \<lparr>Price = 1200, Volume = 1\<rparr>,
                   \<lparr>Price = 1400, Volume = 1\<rparr>] 4 = Some 900
   \<and> aggregatePrice [\<lparr>Price = 1000, Volume = 1\<rparr>, \<lparr>Price = 1200, Volume = 1\<rparr>,
                     \<lparr>Price = 1400, Volume = 1\<rparr>] 2 = Some 1100
   \<and> aggregatePrice [\<lparr>Price = 1000, Volume = 1\<rparr>, \<lparr>Price = 1200, Volume = 1\<rparr>,
                     \<lparr>Price = 1400, Volume = 1\<rparr>] (1 / 2) = Some 1000
   \<and> aggregatePrice [] 2 = Some 0"
  using
    aggregatePrice_contract [of "[\<lparr>Price = 1000, Volume = 1\<rparr>, \<lparr>Price = 1200, Volume = 1\<rparr>,
                                  \<lparr>Price = 1400, Volume = 1\<rparr>]" 4]
    aggregatePrice_contract [of "[\<lparr>Price = 1000, Volume = 1\<rparr>, \<lparr>Price = 1200, Volume = 1\<rparr>,
                                  \<lparr>Price = 1400, Volume = 1\<rparr>]" 2]
    aggregatePrice_contract [of "[\<lparr>Price = 1000, Volume = 1\<rparr>, \<lparr>Price = 1200, Volume = 1\<rparr>,
                                  \<lparr>Price = 1400, Volume = 1\<rparr>]" "1 / 2"]
    aggregatePrice_contract [of "[]" 2]
  by (simp add: nonnegVolumes_def totalVolume_def totalAmountOf_def fixedpoint_Div_def
      spec_aggregatePrice_def)

subsection \<open>Monotonicity of the aggregated price\<close>

lemma spec_consumed_zero: "nonnegVolumes pvs \<Longrightarrow> spec_consumed pvs 0 = 0"
  by (cases pvs) (auto simp: nonnegVolumes_def)

lemma totalVolume_nonneg: "nonnegVolumes pvs \<Longrightarrow> 0 \<le> totalVolume pvs"
  unfolding totalVolume_def nonnegVolumes_def by (induction pvs) auto

lemma consumed_incr_le:
  assumes "nonnegVolumes pvs" "list_all (\<lambda>pv. Price pv \<le> p) pvs" "0 \<le> p" "0 \<le> q1" "q1 \<le> q2"
  shows "spec_consumed pvs q2 - spec_consumed pvs q1 \<le> p * (q2 - q1)"
  using assms
proof (induction pvs arbitrary: q1 q2)
  case Nil
  then show ?case by simp
next
  case (Cons pv pvs)
  have v: "0 \<le> Volume pv" and nn: "nonnegVolumes pvs" and pp: "Price pv \<le> p"
    and all: "list_all (\<lambda>pv. Price pv \<le> p) pvs"
    using Cons.prems by (simp_all add: nonnegVolumes_def)
  consider (a) "q2 \<le> Volume pv" | (b) "q1 \<le> Volume pv" "Volume pv < q2" | (c) "Volume pv < q1"
    by linarith
  then show ?case
  proof cases
    case a
    with Cons.prems have "q1 \<le> Volume pv" by simp
    with a have "spec_consumed (pv # pvs) q2 - spec_consumed (pv # pvs) q1 = (q2 - q1) * Price pv"
      by (simp add: algebra_simps)
    also have "\<dots> \<le> (q2 - q1) * p"
      using pp Cons.prems by (intro mult_left_mono) auto
    finally show ?thesis by (simp add: mult.commute)
  next
    case b
    have "spec_consumed pvs (q2 - Volume pv) - spec_consumed pvs 0 \<le> p * (q2 - Volume pv - 0)"
      using b by (intro Cons.IH nn all Cons.prems(3)) auto
    then have r: "spec_consumed pvs (q2 - Volume pv) \<le> p * (q2 - Volume pv)"
      by (simp add: spec_consumed_zero [OF nn])
    have "(Volume pv - q1) * Price pv \<le> (Volume pv - q1) * p"
      using pp b by (intro mult_left_mono) auto
    with r b show ?thesis by (simp add: algebra_simps)
  next
    case c
    with Cons.prems have c2: "Volume pv < q2" by simp
    have "spec_consumed pvs (q2 - Volume pv) - spec_consumed pvs (q1 - Volume pv)
          \<le> p * ((q2 - Volume pv) - (q1 - Volume pv))"
      using c Cons.prems by (intro Cons.IH nn all) auto
    with c c2 show ?thesis by (simp add: algebra_simps)
  qed
qed


lemma consumed_incr_ge:
  assumes "nonnegVolumes pvs" "list_all (\<lambda>pv. p \<le> Price pv) pvs" "0 \<le> q1" "q1 \<le> q2"
    "q2 \<le> totalVolume pvs"
  shows "p * (q2 - q1) \<le> spec_consumed pvs q2 - spec_consumed pvs q1"
  using assms
proof (induction pvs arbitrary: q1 q2)
  case Nil
  then have "q2 = q1" by (simp add: totalVolume_def)
  then show ?case by simp
next
  case (Cons pv pvs)
  have v: "0 \<le> Volume pv" and nn: "nonnegVolumes pvs" and pp: "p \<le> Price pv"
    and all: "list_all (\<lambda>pv. p \<le> Price pv) pvs"
    using Cons.prems by (simp_all add: nonnegVolumes_def)
  have tot: "q2 - Volume pv \<le> totalVolume pvs"
    using Cons.prems(5) by (simp add: totalVolume_def)
  consider (a) "q2 \<le> Volume pv" | (b) "q1 \<le> Volume pv" "Volume pv < q2" | (c) "Volume pv < q1"
    by linarith
  then show ?case
  proof cases
    case a
    with Cons.prems have "q1 \<le> Volume pv" by simp
    with a have "spec_consumed (pv # pvs) q2 - spec_consumed (pv # pvs) q1 = (q2 - q1) * Price pv"
      by (simp add: algebra_simps)
    moreover have "(q2 - q1) * p \<le> (q2 - q1) * Price pv"
      using pp Cons.prems by (intro mult_left_mono) auto
    ultimately show ?thesis by (simp add: mult.commute)
  next
    case b
    have "p * (q2 - Volume pv - 0) \<le> spec_consumed pvs (q2 - Volume pv) - spec_consumed pvs 0"
      using b tot by (intro Cons.IH nn all) auto
    then have r: "p * (q2 - Volume pv) \<le> spec_consumed pvs (q2 - Volume pv)"
      by (simp add: spec_consumed_zero [OF nn])
    have "(Volume pv - q1) * p \<le> (Volume pv - q1) * Price pv"
      using pp b by (intro mult_left_mono) auto
    with r b show ?thesis by (simp add: algebra_simps)
  next
    case c
    with Cons.prems have c2: "Volume pv < q2" by simp
    have "p * ((q2 - Volume pv) - (q1 - Volume pv))
          \<le> spec_consumed pvs (q2 - Volume pv) - spec_consumed pvs (q1 - Volume pv)"
      using c Cons.prems tot by (intro Cons.IH nn all) auto
    with c c2 show ?thesis by (simp add: algebra_simps)
  qed
qed

lemma bid_cross:
  assumes "bidSide pvs" "0 < q1" "q1 \<le> q2"
  shows "spec_consumed pvs q2 * q1 \<le> spec_consumed pvs q1 * q2"
  using assms
proof (induction pvs arbitrary: q1 q2)
  case Nil
  then show ?case by simp
next
  case (Cons pv pvs)
  have v: "0 \<le> Volume pv" and p0: "0 \<le> Price pv" and nn: "nonnegVolumes pvs"
    and le: "list_all (\<lambda>x. Price x \<le> Price pv) pvs" and bs: "bidSide pvs"
    using Cons.prems(1) by (auto simp: bidSide_def nonnegVolumes_def list_all_iff less_imp_le)
  consider (a) "q2 \<le> Volume pv" | (b) "q1 \<le> Volume pv" "Volume pv < q2" | (c) "Volume pv < q1"
    by linarith
  then show ?case
  proof cases
    case a
    with Cons.prems have "q1 \<le> Volume pv" by simp
    with a show ?thesis by simp
  next
    case b
    have "spec_consumed pvs (q2 - Volume pv) - spec_consumed pvs 0 \<le> Price pv * (q2 - Volume pv - 0)"
      using b by (intro consumed_incr_le nn le p0) auto
    then have r: "spec_consumed pvs (q2 - Volume pv) \<le> Price pv * (q2 - Volume pv)"
      by (simp add: spec_consumed_zero [OF nn])
    have "(Volume pv * Price pv + spec_consumed pvs (q2 - Volume pv)) * q1
          \<le> (Volume pv * Price pv + Price pv * (q2 - Volume pv)) * q1"
      using r Cons.prems(2) by (intro mult_right_mono) auto
    also have "\<dots> = q1 * Price pv * q2" by (simp add: algebra_simps)
    finally show ?thesis using b by simp
  next
    case c
    with Cons.prems have c2: "Volume pv < q2" by simp
    define a1 where "a1 = spec_consumed pvs (q1 - Volume pv)"
    define a2 where "a2 = spec_consumed pvs (q2 - Volume pv)"
    define d1 where "d1 = q1 - Volume pv"
    define d2 where "d2 = q2 - Volume pv"
    have ih: "a2 * d1 \<le> a1 * d2"
      unfolding a1_def a2_def d1_def d2_def using c Cons.prems by (intro Cons.IH bs) auto
    have inc: "a2 - a1 \<le> Price pv * (d2 - d1)"
      unfolding a1_def a2_def d1_def d2_def using c Cons.prems
      by (intro consumed_incr_le nn le p0) auto
    have "Volume pv * (a2 - a1) \<le> Volume pv * (Price pv * (d2 - d1))"
      using inc v by (rule mult_left_mono)
    with ih have "(Volume pv * Price pv + a2) * (Volume pv + d1)
                  \<le> (Volume pv * Price pv + a1) * (Volume pv + d2)"
      by (simp add: algebra_simps)
    moreover have "Volume pv + d1 = q1" "Volume pv + d2 = q2"
      by (simp_all add: d1_def d2_def)
    ultimately show ?thesis using c c2 by (simp add: a1_def a2_def d1_def d2_def)
  qed
qed

lemma ask_cross:
  assumes "askSide pvs" "0 < q1" "q1 \<le> q2" "q2 \<le> totalVolume pvs"
  shows "spec_consumed pvs q1 * q2 \<le> spec_consumed pvs q2 * q1"
  using assms
proof (induction pvs arbitrary: q1 q2)
  case Nil
  then show ?case by simp
next
  case (Cons pv pvs)
  have v: "0 \<le> Volume pv" and nn: "nonnegVolumes pvs"
    and le: "list_all (\<lambda>x. Price pv \<le> Price x) pvs" and bs: "askSide pvs"
    using Cons.prems(1) by (auto simp: askSide_def nonnegVolumes_def list_all_iff less_imp_le)
  have tot: "q2 - Volume pv \<le> totalVolume pvs"
    using Cons.prems(4) by (simp add: totalVolume_def)
  consider (a) "q2 \<le> Volume pv" | (b) "q1 \<le> Volume pv" "Volume pv < q2" | (c) "Volume pv < q1"
    by linarith
  then show ?case
  proof cases
    case a
    with Cons.prems have "q1 \<le> Volume pv" by simp
    with a show ?thesis by simp
  next
    case b
    have "Price pv * (q2 - Volume pv - 0) \<le> spec_consumed pvs (q2 - Volume pv) - spec_consumed pvs 0"
      using b tot by (intro consumed_incr_ge nn le) auto
    then have r: "Price pv * (q2 - Volume pv) \<le> spec_consumed pvs (q2 - Volume pv)"
      by (simp add: spec_consumed_zero [OF nn])
    have "(Volume pv * Price pv + Price pv * (q2 - Volume pv)) * q1
          \<le> (Volume pv * Price pv + spec_consumed pvs (q2 - Volume pv)) * q1"
      using r Cons.prems(2) by (intro mult_right_mono) auto
    moreover have "(Volume pv * Price pv + Price pv * (q2 - Volume pv)) * q1 = q1 * Price pv * q2"
      by (simp add: algebra_simps)
    ultimately show ?thesis using b by simp
  next
    case c
    with Cons.prems have c2: "Volume pv < q2" by simp
    define a1 where "a1 = spec_consumed pvs (q1 - Volume pv)"
    define a2 where "a2 = spec_consumed pvs (q2 - Volume pv)"
    define d1 where "d1 = q1 - Volume pv"
    define d2 where "d2 = q2 - Volume pv"
    have ih: "a1 * d2 \<le> a2 * d1"
      unfolding a1_def a2_def d1_def d2_def using c Cons.prems tot by (intro Cons.IH bs) auto
    have inc: "Price pv * (d2 - d1) \<le> a2 - a1"
      unfolding a1_def a2_def d1_def d2_def using c Cons.prems tot
      by (intro consumed_incr_ge nn le) auto
    have "Volume pv * (Price pv * (d2 - d1)) \<le> Volume pv * (a2 - a1)"
      using inc v by (rule mult_left_mono)
    with ih have "(Volume pv * Price pv + a1) * (Volume pv + d2)
                  \<le> (Volume pv * Price pv + a2) * (Volume pv + d1)"
      by (simp add: algebra_simps)
    moreover have "Volume pv + d1 = q1" "Volume pv + d2 = q2"
      by (simp_all add: d1_def d2_def)
    ultimately show ?thesis using c c2 by (simp add: a1_def a2_def d1_def d2_def)
  qed
qed

text \<open>
  Claim C6, as stated, fails on the ask side when the book is shallower than the larger
  quantity: the shortfall is priced at zero, so the result falls as the quantity grows. On
  the ask side of the strategy's own test (1301 x 1, 1400 x 2, 1500 x 3) the price for 6 is
  1433.5 and the price for 12 is 716.75.
\<close>

theorem aggregatePrice_ask_not_monotone:
  "askSide [\<lparr>Price = 1301, Volume = 1\<rparr>, \<lparr>Price = 1400, Volume = 2\<rparr>, \<lparr>Price = 1500, Volume = 3\<rparr>]
   \<and> (0::rat) < 6 \<and> (6::rat) < 12
   \<and> aggregatePrice [\<lparr>Price = 1301, Volume = 1\<rparr>, \<lparr>Price = 1400, Volume = 2\<rparr>,
                     \<lparr>Price = 1500, Volume = 3\<rparr>] 6 = Some (2867 / 2)
   \<and> aggregatePrice [\<lparr>Price = 1301, Volume = 1\<rparr>, \<lparr>Price = 1400, Volume = 2\<rparr>,
                     \<lparr>Price = 1500, Volume = 3\<rparr>] 12 = Some (2867 / 4)
   \<and> \<not> ((2867 / 2 :: rat) \<le> 2867 / 4)
   \<and> aggregatePriceWith fixed8 [\<lparr>Price = 1301, Volume = 1\<rparr>, \<lparr>Price = 1400, Volume = 2\<rparr>,
                                \<lparr>Price = 1500, Volume = 3\<rparr>] 6 = Some (2867 / 2)
   \<and> aggregatePriceWith fixed8 [\<lparr>Price = 1301, Volume = 1\<rparr>, \<lparr>Price = 1400, Volume = 2\<rparr>,
                                \<lparr>Price = 1500, Volume = 3\<rparr>] 12 = Some (2867 / 4)"
proof -
  have exact: "askSide [\<lparr>Price = 1301, Volume = 1\<rparr>, \<lparr>Price = 1400, Volume = 2\<rparr>,
                        \<lparr>Price = 1500, Volume = 3\<rparr>]
   \<and> (0::rat) < 6 \<and> (6::rat) < 12
   \<and> aggregatePrice [\<lparr>Price = 1301, Volume = 1\<rparr>, \<lparr>Price = 1400, Volume = 2\<rparr>,
                     \<lparr>Price = 1500, Volume = 3\<rparr>] 6 = Some (2867 / 2)
   \<and> aggregatePrice [\<lparr>Price = 1301, Volume = 1\<rparr>, \<lparr>Price = 1400, Volume = 2\<rparr>,
                     \<lparr>Price = 1500, Volume = 3\<rparr>] 12 = Some (2867 / 4)
   \<and> \<not> ((2867 / 2 :: rat) \<le> 2867 / 4)"
    by (simp add: askSide_def nonnegVolumes_def aggregatePrice_def fixedpoint_Div_def)
  have r6: "aggregatePriceWith fixed8 [\<lparr>Price = 1301, Volume = 1\<rparr>, \<lparr>Price = 1400, Volume = 2\<rparr>,
                                \<lparr>Price = 1500, Volume = 3\<rparr>] 6 = Some (2867 / 2)"
    by code_simp
  have r12: "aggregatePriceWith fixed8 [\<lparr>Price = 1301, Volume = 1\<rparr>, \<lparr>Price = 1400, Volume = 2\<rparr>,
                                \<lparr>Price = 1500, Volume = 3\<rparr>] 12 = Some (2867 / 4)"
    by code_simp
  from exact r6 r12 show ?thesis by blast
qed

text \<open>
  Under rounding arithmetic the exact inequality fails also within a deep enough, well
  formed side. With eight truncated decimals, on the bids 44113.37 x 0.15476483,
  44113.34 x 0.01602088, 44113.33 x 0.11860477, the price for 0.20931477 is
  44113.36034079 and the price for the larger 0.20931478 is 44113.36034082.
\<close>

theorem aggregatePrice_rounding_not_monotone:
  "bidSide [\<lparr>Price = 4411337 / 100, Volume = 15476483 / 100000000\<rparr>,
            \<lparr>Price = 4411334 / 100, Volume = 1602088 / 100000000\<rparr>,
            \<lparr>Price = 4411333 / 100, Volume = 11860477 / 100000000\<rparr>]
   \<and> (0::rat) < 20931477 / 100000000 \<and> (20931477 / 100000000 :: rat) < 20931478 / 100000000
   \<and> aggregatePriceWith fixed8
         [\<lparr>Price = 4411337 / 100, Volume = 15476483 / 100000000\<rparr>,
          \<lparr>Price = 4411334 / 100, Volume = 1602088 / 100000000\<rparr>,
          \<lparr>Price = 4411333 / 100, Volume = 11860477 / 100000000\<rparr>] (20931477 / 100000000)
       = Some (4411336034079 / 100000000)
   \<and> aggregatePriceWith fixed8
         [\<lparr>Price = 4411337 / 100, Volume = 15476483 / 100000000\<rparr>,
          \<lparr>Price = 4411334 / 100, Volume = 1602088 / 100000000\<rparr>,
          \<lparr>Price = 4411333 / 100, Volume = 11860477 / 100000000\<rparr>] (20931478 / 100000000)
       = Some (4411336034082 / 100000000)
   \<and> \<not> ((4411336034079 / 100000000 :: rat) \<ge> 4411336034082 / 100000000)"
proof -
  have b: "bidSide [\<lparr>Price = 4411337 / 100, Volume = 15476483 / 100000000\<rparr>,
            \<lparr>Price = 4411334 / 100, Volume = 1602088 / 100000000\<rparr>,
            \<lparr>Price = 4411333 / 100, Volume = 11860477 / 100000000\<rparr>]"
    by (simp add: bidSide_def nonnegVolumes_def)
  have p1: "aggregatePriceWith fixed8
         [\<lparr>Price = 4411337 / 100, Volume = 15476483 / 100000000\<rparr>,
          \<lparr>Price = 4411334 / 100, Volume = 1602088 / 100000000\<rparr>,
          \<lparr>Price = 4411333 / 100, Volume = 11860477 / 100000000\<rparr>] (20931477 / 100000000)
       = Some (4411336034079 / 100000000)"
    by code_simp
  have p2: "aggregatePriceWith fixed8
         [\<lparr>Price = 4411337 / 100, Volume = 15476483 / 100000000\<rparr>,
          \<lparr>Price = 4411334 / 100, Volume = 1602088 / 100000000\<rparr>,
          \<lparr>Price = 4411333 / 100, Volume = 11860477 / 100000000\<rparr>] (20931478 / 100000000)
       = Some (4411336034082 / 100000000)"
    by code_simp
  show ?thesis using b p1 p2 by simp
qed

text \<open>
  The computed total amount stays within \<open>n * u\<close> of the exact one over a side of \<open>n\<close>
  levels, and the computed price within \<open>u + n * u / Q\<close> of the exact volume-weighted
  price, when every product and quotient is within \<open>u\<close> of the exact result. Eight
  truncated decimals are within \<open>10\<^sup>-\<^sup>8\<close>.
\<close>

lemma aggregatePriceWith_exact: "aggregatePriceWith exactArith pvs Q = aggregatePrice pvs Q"
proof -
  have "aggregateLoopWith exactArith pvs q acc = aggregateLoop pvs q acc" for q acc
    by (induction pvs arbitrary: q acc) (simp_all add: exactArith_def)
  then show ?thesis
    by (simp add: aggregatePriceWith_def aggregatePrice_def DivWith_def fixedpoint_Div_def
        exactArith_def)
qed

lemma floor_scaled_err:
  fixes x :: rat
  shows "\<bar>of_int \<lfloor>x * 100000000\<rfloor> / 100000000 - x\<bar> \<le> 1 / 100000000"
proof -
  define f :: rat where "f = of_int \<lfloor>x * 100000000\<rfloor>"
  have "f \<le> x * 100000000" "x * 100000000 < f + 1"
    unfolding f_def by linarith+
  then have "f / 100000000 \<le> x" "x < f / 100000000 + 1 / 100000000"
    by (simp_all add: field_simps)
  then show ?thesis unfolding f_def by linarith
qed

lemma trunc8_err: "\<bar>trunc8 x - x\<bar> \<le> fixedUnit"
proof (cases "0 \<le> x")
  case True
  then show ?thesis
    using floor_scaled_err [of x] by (simp add: trunc8_def fixedUnit_def)
next
  case False
  have "\<bar>- (of_int \<lfloor>- x * 100000000\<rfloor> / 100000000) - x\<bar>
        = \<bar>of_int \<lfloor>- x * 100000000\<rfloor> / 100000000 - (- x)\<bar>"
    by linarith
  with False show ?thesis
    using floor_scaled_err [of "- x"] by (simp only: trunc8_def fixedUnit_def if_False)
qed

lemma fixed8_Mul: "\<bar>Mul fixed8 x y - x * y\<bar> \<le> fixedUnit"
  by (simp add: fixed8_def trunc8_err)

lemma fixed8_Quo: "y \<noteq> 0 \<Longrightarrow> \<bar>Quo fixed8 x y - x / y\<bar> \<le> fixedUnit"
  by (simp add: fixed8_def trunc8_err)

lemma loopWith_err:
  assumes mul: "\<And>x y. \<bar>Mul ar x y - x * y\<bar> \<le> u"
  shows "\<bar>aggregateLoopWith ar pvs q acc - (acc + spec_consumed pvs q)\<bar> \<le> of_nat (length pvs) * u"
proof (induction pvs arbitrary: q acc)
  case Nil
  then show ?case by simp
next
  case (Cons pv pvs)
  have u0: "0 \<le> u" using mul [of 0 0] by linarith
  show ?case
  proof (cases "Volume pv \<ge> q")
    case True
    have "\<bar>Mul ar q (Price pv) - q * Price pv\<bar> \<le> u" by (rule mul)
    moreover have "u \<le> of_nat (length (pv # pvs)) * u"
      using u0 by (simp add: algebra_simps mult_nonneg_nonneg)
    ultimately show ?thesis using True by simp
  next
    case False
    have a: "\<bar>Mul ar (Volume pv) (Price pv) - Volume pv * Price pv\<bar> \<le> u" by (rule mul)
    have b: "\<bar>aggregateLoopWith ar pvs (q - Volume pv) (acc + Mul ar (Volume pv) (Price pv))
              - (acc + Mul ar (Volume pv) (Price pv) + spec_consumed pvs (q - Volume pv))\<bar>
             \<le> of_nat (length pvs) * u"
      by (rule Cons.IH)
    from a b False show ?thesis by (simp add: algebra_simps)
  qed
qed

lemma priceWith_err:
  assumes mul: "\<And>x y. \<bar>Mul ar x y - x * y\<bar> \<le> u"
    and quo: "\<And>x y. y \<noteq> 0 \<Longrightarrow> \<bar>Quo ar x y - x / y\<bar> \<le> u"
    and nn: "nonnegVolumes pvs" and pos: "0 < Q"
  shows "\<exists>P. aggregatePriceWith ar pvs Q = Some P
           \<and> \<bar>P - spec_consumed pvs Q / Q\<bar> \<le> u + of_nat (length pvs) * u / Q"
proof -
  have u0: "0 \<le> u" using mul [of 0 0] by linarith
  then have e0: "0 \<le> u + of_nat (length pvs) * u / Q"
    using pos by (simp add: add_nonneg_nonneg)
  show ?thesis
  proof (cases pvs)
    case Nil
    then show ?thesis using e0 by (simp add: aggregatePriceWith_def)
  next
    case (Cons pv rest)
    show ?thesis
    proof (cases "Volume pv \<ge> Q")
      case True
      then show ?thesis using Cons e0 pos by (simp add: aggregatePriceWith_def)
    next
      case False
      define T where "T = aggregateLoopWith ar pvs Q 0"
      have t: "\<bar>T - spec_consumed pvs Q\<bar> \<le> of_nat (length pvs) * u"
        using loopWith_err [OF mul, of pvs Q 0] by (simp add: T_def)
      have q: "\<bar>Quo ar T Q - T / Q\<bar> \<le> u" using pos by (intro quo) simp
      have "\<bar>T / Q - spec_consumed pvs Q / Q\<bar> = \<bar>T - spec_consumed pvs Q\<bar> / Q"
        using pos by (simp add: diff_divide_distrib [symmetric])
      also have "\<dots> \<le> of_nat (length pvs) * u / Q"
        using t pos by (simp add: divide_right_mono)
      finally have "\<bar>Quo ar T Q - spec_consumed pvs Q / Q\<bar> \<le> u + of_nat (length pvs) * u / Q"
        using q by linarith
      moreover have "aggregatePriceWith ar pvs Q = Some (Quo ar T Q)"
        using False Cons pos by (simp add: aggregatePriceWith_def DivWith_def T_def)
      ultimately show ?thesis by simp
    qed
  qed
qed

text \<open>
  Claim C6, amended. Let every product and every quotient of the fixed-point arithmetic be
  within \<open>u\<close> of the exact result, and \<open>0 < Q1 < Q2\<close>. On a bid side (prices strictly
  decreasing by level and non-negative, volumes non-negative) of \<open>n\<close> levels the aggregated
  price for \<open>Q1\<close> is at least the one for \<open>Q2\<close> less the rounding slack
  \<open>u * (2 + n / Q1 + n / Q2)\<close>; on an ask side (prices strictly increasing by level,
  volumes non-negative) whose total volume covers \<open>Q2\<close>, the aggregated price for \<open>Q1\<close> is
  at most the one for \<open>Q2\<close> plus that slack. For exact arithmetic the slack is zero.
\<close>

theorem aggregatePrice_monotone_up_to_rounding:
  assumes mul: "\<And>x y. \<bar>Mul ar x y - x * y\<bar> \<le> u"
    and quo: "\<And>x y. y \<noteq> 0 \<Longrightarrow> \<bar>Quo ar x y - x / y\<bar> \<le> u"
    and "0 < Q1" and "Q1 < Q2"
  shows "(bidSide pvs \<longrightarrow>
           (\<exists>p1 p2. aggregatePriceWith ar pvs Q1 = Some p1 \<and> aggregatePriceWith ar pvs Q2 = Some p2
                    \<and> p1 \<ge> p2 - roundingSlack u (length pvs) Q1 Q2))
       \<and> (askSide pvs \<and> Q2 \<le> totalVolume pvs \<longrightarrow>
           (\<exists>p1 p2. aggregatePriceWith ar pvs Q1 = Some p1 \<and> aggregatePriceWith ar pvs Q2 = Some p2
                    \<and> p1 \<le> p2 + roundingSlack u (length pvs) Q1 Q2))"
proof (intro conjI impI)
  from assms have pos: "0 < Q2" and le: "Q1 \<le> Q2" by simp_all
  have slack: "roundingSlack u (length pvs) Q1 Q2
               = (u + of_nat (length pvs) * u / Q1) + (u + of_nat (length pvs) * u / Q2)"
    by (simp add: roundingSlack_def algebra_simps)
  {
    assume b: "bidSide pvs"
    then have nn: "nonnegVolumes pvs" by (simp add: bidSide_def)
    have "spec_consumed pvs Q2 * Q1 \<le> spec_consumed pvs Q1 * Q2"
      using b assms(3) le by (rule bid_cross)
    then have ex: "spec_consumed pvs Q2 / Q2 \<le> spec_consumed pvs Q1 / Q1"
      using assms(3) pos by (simp add: field_simps)
    from priceWith_err [OF mul quo nn assms(3)] obtain p1 where
      p1: "aggregatePriceWith ar pvs Q1 = Some p1"
          "\<bar>p1 - spec_consumed pvs Q1 / Q1\<bar> \<le> u + of_nat (length pvs) * u / Q1" by blast
    from priceWith_err [OF mul quo nn pos] obtain p2 where
      p2: "aggregatePriceWith ar pvs Q2 = Some p2"
          "\<bar>p2 - spec_consumed pvs Q2 / Q2\<bar> \<le> u + of_nat (length pvs) * u / Q2" by blast
    from ex p1(2) p2(2) have "p1 \<ge> p2 - roundingSlack u (length pvs) Q1 Q2"
      unfolding slack by linarith
    with p1(1) p2(1)
    show "\<exists>p1 p2. aggregatePriceWith ar pvs Q1 = Some p1 \<and> aggregatePriceWith ar pvs Q2 = Some p2
                    \<and> p1 \<ge> p2 - roundingSlack u (length pvs) Q1 Q2"
      by blast
  }
  {
    assume a: "askSide pvs \<and> Q2 \<le> totalVolume pvs"
    then have nn: "nonnegVolumes pvs" by (simp add: askSide_def)
    have "spec_consumed pvs Q1 * Q2 \<le> spec_consumed pvs Q2 * Q1"
      using a assms(3) le by (intro ask_cross) auto
    then have ex: "spec_consumed pvs Q1 / Q1 \<le> spec_consumed pvs Q2 / Q2"
      using assms(3) pos by (simp add: field_simps)
    from priceWith_err [OF mul quo nn assms(3)] obtain p1 where
      p1: "aggregatePriceWith ar pvs Q1 = Some p1"
          "\<bar>p1 - spec_consumed pvs Q1 / Q1\<bar> \<le> u + of_nat (length pvs) * u / Q1" by blast
    from priceWith_err [OF mul quo nn pos] obtain p2 where
      p2: "aggregatePriceWith ar pvs Q2 = Some p2"
          "\<bar>p2 - spec_consumed pvs Q2 / Q2\<bar> \<le> u + of_nat (length pvs) * u / Q2" by blast
    from ex p1(2) p2(2) have "p1 \<le> p2 + roundingSlack u (length pvs) Q1 Q2"
      unfolding slack by linarith
    with p1(1) p2(1)
    show "\<exists>p1 p2. aggregatePriceWith ar pvs Q1 = Some p1 \<and> aggregatePriceWith ar pvs Q2 = Some p2
                    \<and> p1 \<le> p2 + roundingSlack u (length pvs) Q1 Q2"
      by blast
  }
qed

theorem aggregatePrice_monotone_up_to_rounding_witness:
  "(0::rat) < 2 \<and> (2::rat) < 3
   \<and> bidSide [\<lparr>Price = 1300, Volume = 1\<rparr>, \<lparr>Price = 1200, Volume = 2\<rparr>, \<lparr>Price = 1100, Volume = 3\<rparr>]
   \<and> (\<exists>p1 p2. aggregatePriceWith fixed8 [\<lparr>Price = 1300, Volume = 1\<rparr>, \<lparr>Price = 1200, Volume = 2\<rparr>,
                                          \<lparr>Price = 1100, Volume = 3\<rparr>] 2 = Some p1
             \<and> aggregatePriceWith fixed8 [\<lparr>Price = 1300, Volume = 1\<rparr>, \<lparr>Price = 1200, Volume = 2\<rparr>,
                                          \<lparr>Price = 1100, Volume = 3\<rparr>] 3 = Some p2
             \<and> p1 \<ge> p2 - roundingSlack fixedUnit 3 2 3)
   \<and> askSide [\<lparr>Price = 1301, Volume = 1\<rparr>, \<lparr>Price = 1400, Volume = 2\<rparr>, \<lparr>Price = 1500, Volume = 3\<rparr>]
   \<and> (3::rat) \<le> totalVolume [\<lparr>Price = 1301, Volume = 1\<rparr>, \<lparr>Price = 1400, Volume = 2\<rparr>,
                              \<lparr>Price = 1500, Volume = 3\<rparr>]
   \<and> (\<exists>p1 p2. aggregatePriceWith fixed8 [\<lparr>Price = 1301, Volume = 1\<rparr>, \<lparr>Price = 1400, Volume = 2\<rparr>,
                                          \<lparr>Price = 1500, Volume = 3\<rparr>] 2 = Some p1
             \<and> aggregatePriceWith fixed8 [\<lparr>Price = 1301, Volume = 1\<rparr>, \<lparr>Price = 1400, Volume = 2\<rparr>,
                                          \<lparr>Price = 1500, Volume = 3\<rparr>] 3 = Some p2
             \<and> p1 \<le> p2 + roundingSlack fixedUnit 3 2 3)"
proof -
  have q: "(0::rat) < 2" "(2::rat) < 3" by simp_all
  have b: "bidSide [\<lparr>Price = 1300, Volume = 1\<rparr>, \<lparr>Price = 1200, Volume = 2\<rparr>,
                    \<lparr>Price = 1100, Volume = 3\<rparr>]"
    by (simp add: bidSide_def nonnegVolumes_def)
  have a: "askSide [\<lparr>Price = 1301, Volume = 1\<rparr>, \<lparr>Price = 1400, Volume = 2\<rparr>,
                    \<lparr>Price = 1500, Volume = 3\<rparr>]"
    by (simp add: askSide_def nonnegVolumes_def)
  have t: "(3::rat) \<le> totalVolume [\<lparr>Price = 1301, Volume = 1\<rparr>, \<lparr>Price = 1400, Volume = 2\<rparr>,
                                   \<lparr>Price = 1500, Volume = 3\<rparr>]"
    by (simp add: totalVolume_def)
  have l: "length [\<lparr>Price = 1300, Volume = 1\<rparr>, \<lparr>Price = 1200, Volume = 2\<rparr>,
                   \<lparr>Price = 1100, Volume = (3::rat)\<rparr>] = 3"
          "length [\<lparr>Price = 1301, Volume = 1\<rparr>, \<lparr>Price = 1400, Volume = 2\<rparr>,
                   \<lparr>Price = 1500, Volume = (3::rat)\<rparr>] = 3"
    by simp_all
  show ?thesis
    using q b a t
      aggregatePrice_monotone_up_to_rounding [OF fixed8_Mul fixed8_Quo q,
        of "[\<lparr>Price = 1300, Volume = 1\<rparr>, \<lparr>Price = 1200, Volume = 2\<rparr>, \<lparr>Price = 1100, Volume = 3\<rparr>]"]
      aggregatePrice_monotone_up_to_rounding [OF fixed8_Mul fixed8_Quo q,
        of "[\<lparr>Price = 1301, Volume = 1\<rparr>, \<lparr>Price = 1400, Volume = 2\<rparr>, \<lparr>Price = 1500, Volume = 3\<rparr>]"]
    unfolding l by blast
qed

subsection \<open>Totality of the price aggregator\<close>

text \<open>
  Claim C10. With a non-negative first-level volume, \<open>aggregatePrice\<close> returns a value for
  every list and every required quantity, never dividing by zero: for a required quantity
  that is zero or negative and a non-empty list it returns the first level's price through
  the first-level branch, and the final division is reached only with a required quantity
  that exceeds the first level's volume and is therefore positive.
\<close>

theorem aggregatePrice_total:
  assumes "pvs \<noteq> [] \<longrightarrow> 0 \<le> Volume (hd pvs)"
  shows "(\<exists>price. aggregatePrice pvs Q = Some price)
       \<and> (pvs \<noteq> [] \<and> Q \<le> 0 \<longrightarrow> aggregatePrice pvs Q = Some (Price (hd pvs)))
       \<and> (pvs \<noteq> [] \<and> \<not> Volume (hd pvs) \<ge> Q \<longrightarrow>
            0 < Q \<and> aggregatePrice pvs Q = Some (aggregateLoop pvs Q 0 / Q))"
proof (cases pvs)
  case Nil
  then show ?thesis by (simp add: aggregatePrice_def)
next
  case (Cons pv rest)
  with assms have v: "0 \<le> Volume pv" by simp
  show ?thesis
  proof (cases "Volume pv \<ge> Q")
    case True
    with Cons show ?thesis by (simp add: aggregatePrice_def)
  next
    case False
    with v have "0 < Q" by simp
    with False Cons show ?thesis
      by (simp add: aggregatePrice_def fixedpoint_Div_def)
  qed
qed

theorem aggregatePrice_total_witness:
  "aggregatePrice [\<lparr>Price = 1000, Volume = 1\<rparr>, \<lparr>Price = 1200, Volume = 1\<rparr>] 0 = Some 1000
   \<and> aggregatePrice [\<lparr>Price = 1000, Volume = 1\<rparr>, \<lparr>Price = 1200, Volume = 1\<rparr>] (- 3) = Some 1000
   \<and> aggregatePrice [\<lparr>Price = 1000, Volume = 1\<rparr>, \<lparr>Price = 1200, Volume = 1\<rparr>] 2 = Some 1100
   \<and> aggregatePrice [\<lparr>Price = 1000, Volume = 0\<rparr>] 5 = Some 0"
  using
    aggregatePrice_total [of "[\<lparr>Price = 1000, Volume = 1\<rparr>, \<lparr>Price = 1200, Volume = 1\<rparr>]" 0]
    aggregatePrice_total [of "[\<lparr>Price = 1000, Volume = 1\<rparr>, \<lparr>Price = 1200, Volume = 1\<rparr>]" "- 3"]
    aggregatePrice_total [of "[\<lparr>Price = 1000, Volume = 1\<rparr>, \<lparr>Price = 1200, Volume = 1\<rparr>]" 2]
    aggregatePrice_total [of "[\<lparr>Price = 1000, Volume = 0\<rparr>]" 5]
  by simp

text \<open>
  The same holds over every arithmetic: whichever way the products and the quotient
  round, a non-negative first-level volume keeps the division away from a zero divisor.
\<close>

lemma aggregatePriceWith_total:
  assumes "pvs \<noteq> [] \<longrightarrow> 0 \<le> Volume (hd pvs)"
  shows "\<exists>price. aggregatePriceWith ar pvs Q = Some price"
proof (cases pvs)
  case Nil
  then show ?thesis by (simp add: aggregatePriceWith_def)
next
  case (Cons pv rest)
  with assms have "0 \<le> Volume pv" by simp
  then have "Volume pv \<ge> Q \<or> Q \<noteq> 0" by linarith
  with Cons show ?thesis by (auto simp: aggregatePriceWith_def DivWith_def)
qed

section \<open>Properties of the sequence cursor\<close>





















section \<open>Properties of the batch-order response\<close>

lemma unmarshalItems_wellFormed:
  "list_all wellFormedItem msgs \<Longrightarrow>
   \<exists>f'. unmarshalItems i msgs f = (f', None)
        \<and> length (Errors f') = length (Errors f)
        \<and> Orders f' = Orders f @ map (\<lambda>m. the (asOrder m)) (filter (\<lambda>m. \<not> isApiError m) msgs)"
proof (induction msgs arbitrary: i f)
  case Nil
  then show ?case by simp
next
  case (Cons m ms)
  then have wf: "wellFormedItem m" and rest: "list_all wellFormedItem ms" by simp_all
  show ?case
  proof (cases "isApiError m")
    case True
    then obtain code message where e: "asApiErr m = Some (code, message)"
      and ne: "code \<noteq> 0 \<or> message \<noteq> []"
      by (auto simp: isApiError_def split: option.splits)
    from Cons.IH [OF rest, of "Suc i" "f\<lparr>Errors := (Errors f)[i := Some (APIError code message)]\<rparr>"]
    show ?thesis using True e ne by auto
  next
    case False
    with wf obtain order where o: "asOrder m = Some order"
      by (auto simp: wellFormedItem_def)
    from False have none: "(case asApiErr m of
                      Some (code, message) \<Rightarrow>
                        if code \<noteq> 0 \<or> message \<noteq> [] then Some (APIError code message) else None
                    | None \<Rightarrow> None) = None"
      by (auto simp: isApiError_def split: option.splits)
    from Cons.IH [OF rest, of "Suc i" "f\<lparr>Orders := Orders f @ [order]\<rparr>"]
    show ?thesis using False o none by auto
  qed
qed

text \<open>
  What \<open>Unmarshal\<close> does on a well-formed array of \<open>N\<close> items: no error, \<open>N\<close> error slots, and
  an order list that starts with the \<open>N\<close> zero-valued entries of the pre-allocation, the
  decoded orders following them.
\<close>

lemma Unmarshal_orders_shape:
  assumes "list_all wellFormedItem rawMsgs"
  shows "\<exists>f'. Unmarshal f (Some rawMsgs) = (f', None)
        \<and> length (Errors f') = length rawMsgs
        \<and> Orders f' = replicate (length rawMsgs) zeroOrder
                        @ map (\<lambda>m. the (asOrder m)) (filter (\<lambda>m. \<not> isApiError m) rawMsgs)"
  using unmarshalItems_wellFormed [OF assms, of 0
      "f\<lparr>Errors := replicate (length rawMsgs) None, Orders := replicate (length rawMsgs) zeroOrder\<rparr>"]
  by (auto simp: Unmarshal_def)

text \<open>
  Claim C8 does not hold of the code. On the two-item array of an API error followed by an
  order, \<open>Unmarshal\<close> returns no error and the per-index error list, but the order is
  appended behind the two pre-allocated zero entries instead of being stored at index 1.
\<close>

theorem Unmarshal_appends_after_preallocation:
  "Unmarshal \<lparr>Orders = [], Errors = []\<rparr>
     (Some [\<lparr>asApiErr = Some (- 2010, ''insufficient balance''), asOrder = Some zeroOrder\<rparr>,
            \<lparr>asApiErr = Some (0, []), asOrder = Some \<lparr>OrderId = 7, ClientOrderId = ''a''\<rparr>\<rparr>])
   = (\<lparr>Orders = [zeroOrder, zeroOrder, \<lparr>OrderId = 7, ClientOrderId = ''a''\<rparr>],
       Errors = [Some (APIError (- 2010) ''insufficient balance''), None]\<rparr>, None)"
  by (simp add: Unmarshal_def)

section \<open>Properties of the strategy\<close>

lemmas demo_defs = demoStrategy_def demoEnv_def demoMarket_def spec_TruncateQuantity_def
  spec_AdjustQuantityByMaxAmount_def NewPriceHeartBeat_def priceUpdateTimeout_def

lemmas quote_defs = updateQuote_def generateAndSubmit_def BestBidAndAsk_def IsValid_def
  HeartBeat_Update_def makerBalanceGate_def hedgeBalanceGate_def exposureGate_def
  bollBandAdjust_def bidLayer_def askLayer_def Quota_Lock_def Quota_Add_def Commit_def Rollback_def
  Quota_Commit_def Quota_Rollback_def emptyQuota_def

lemmas hedge_defs = hedgeWorkerTick_def Hedge_def submitHedgeOrder_def BestAsk_def BestBid_def
  minGap_def lastPriceModifier_def

subsection \<open>Exposure cap\<close>

text \<open>
  The exposure check never changes the bid flag: its first comparison,
  \<open>pos > - MaxExposurePosition\<close>, holds whenever the second, \<open>pos > MaxExposurePosition\<close>,
  does, so the branch that disables the bid is never taken.
\<close>

lemma exposureGate_keeps_bid: "fst (exposureGate s d) = fst d"
  by (cases d) (simp add: exposureGate_def Let_def)

text \<open>
  Claim C1 does not hold of the code. With a maximal exposure of 1 and a position of 2,
  the quoting pass submits a buy order; with a position of -2 it submits a sell order
  next to the buy order.
\<close>

theorem exposure_cap_not_enforced:
  "PositionBase (demoStrategy\<lparr>PositionBase := 2\<rparr>) > MaxExposurePosition (demoStrategy\<lparr>PositionBase := 2\<rparr>)
   \<and> map_option snd (updateQuote demoEnv (demoStrategy\<lparr>PositionBase := 2\<rparr>))
     = Some [\<lparr>OrdType = OrderTypeLimit, Side = SideTypeBuy, OrdPrice = 12961 / 10, Quantity = 1 / 10\<rparr>]
   \<and> PositionBase (demoStrategy\<lparr>PositionBase := - 2\<rparr>) < - MaxExposurePosition (demoStrategy\<lparr>PositionBase := - 2\<rparr>)
   \<and> map_option snd (updateQuote demoEnv (demoStrategy\<lparr>PositionBase := - 2\<rparr>))
     = Some [\<lparr>OrdType = OrderTypeLimit, Side = SideTypeBuy, OrdPrice = 12961 / 10, Quantity = 1 / 10\<rparr>,
             \<lparr>OrdType = OrderTypeLimit, Side = SideTypeSell, OrdPrice = 1304903 / 1000, Quantity = 1 / 10\<rparr>]"
  by (simp add: demo_defs quote_defs Let_def)

subsection \<open>Hedging\<close>

lemma submitHedgeOrder_shape:
  "submitHedgeOrder env s side q = (s', orders) \<Longrightarrow>
     (orders = [] \<and> s' = s \<and> formatOrdersFails env)
   \<or> (orders = [\<lparr>OrdType = OrderTypeMarket, Side = side, OrdPrice = 0, Quantity = q\<rparr>]
      \<and> \<not> formatOrdersFails env
      \<and> orderStore s' = orderStore s @ fst (batchPlaceOrder env orders)
      \<and> activeMakerOrders s' = activeMakerOrders s @ fst (batchPlaceOrder env orders)
      \<and> (if snd (batchPlaceOrder env orders) then CoveredPosition s' = CoveredPosition s
          else CoveredPosition s' = CoveredPosition s + (if side = SideTypeSell then q else - q)))"
  by (auto simp: submitHedgeOrder_def Let_def split: prod.splits if_splits)

lemma Hedge_shape:
  assumes "Hedge env s pos = (s', orders)"
  shows "(orders = [] \<and> CoveredPosition s' = CoveredPosition s)
       \<or> (\<exists>q. orders = [\<lparr>OrdType = OrderTypeMarket,
                          Side = (if pos < 0 then SideTypeSell else SideTypeBuy),
                          OrdPrice = 0, Quantity = q\<rparr>]
              \<and> pos \<noteq> 0
              \<and> (if snd (batchPlaceOrder env orders) then CoveredPosition s' = CoveredPosition s
                  else CoveredPosition s' = CoveredPosition s + (if pos < 0 then q else - q)))"
proof (cases "orders = []")
  case True
  then show ?thesis
    using assms
    by (auto simp: Hedge_def Let_def split: if_splits option.splits dest!: submitHedgeOrder_shape)
next
  case False
  then show ?thesis
    using assms
    by (auto simp: Hedge_def Let_def split: if_splits option.splits dest!: submitHedgeOrder_shape)
qed

text \<open>
  Claim C2. In a hedging tick with hedging enabled and \<open>|uncovered| > minQuantity\<close>, where
  \<open>uncovered = position - coveredPosition\<close>: every order handed to the source exchange is a
  market order, a sell when \<open>uncovered > 0\<close> and a buy when \<open>uncovered < 0\<close>; and when an
  order of quantity \<open>q\<close> is submitted without error, the covered position is increased by
  \<open>q\<close> for the sell and by \<open>- q\<close> for the buy.
\<close>

theorem hedge_direction:
  assumes "\<not> DisableHedge s"
    and "\<bar>PositionBase s - CoveredPosition s\<bar> > MinQuantity (sourceMarket s)"
    and "hedgeWorkerTick env s = (s', orders)"
  shows "(\<forall>order \<in> set orders.
            OrdType order = OrderTypeMarket
          \<and> Side order = (if PositionBase s - CoveredPosition s > 0 then SideTypeSell
                           else SideTypeBuy))
       \<and> (orders \<noteq> [] \<and> \<not> snd (batchPlaceOrder env orders) \<longrightarrow>
            (\<exists>q. orders = [\<lparr>OrdType = OrderTypeMarket,
                             Side = (if PositionBase s - CoveredPosition s > 0 then SideTypeSell
                                     else SideTypeBuy),
                             OrdPrice = 0, Quantity = q\<rparr>]
                \<and> CoveredPosition s' =
                    CoveredPosition s
                    + (if PositionBase s - CoveredPosition s > 0 then q else - q)))"
proof -
  define u where "u = PositionBase s - CoveredPosition s"
  from assms have h: "Hedge env s (- u) = (s', orders)"
    by (simp add: hedgeWorkerTick_def Let_def u_def)
  from Hedge_shape [OF h] show ?thesis
    unfolding u_def [symmetric] by (auto split: if_splits)
qed

theorem hedge_direction_witness:
  "\<not> DisableHedge (demoStrategy\<lparr>PositionBase := 1\<rparr>)
   \<and> \<bar>PositionBase (demoStrategy\<lparr>PositionBase := 1\<rparr>) - CoveredPosition (demoStrategy\<lparr>PositionBase := 1\<rparr>)\<bar>
       > MinQuantity (sourceMarket (demoStrategy\<lparr>PositionBase := 1\<rparr>))
   \<and> snd (hedgeWorkerTick demoEnv (demoStrategy\<lparr>PositionBase := 1\<rparr>))
       = [\<lparr>OrdType = OrderTypeMarket, Side = SideTypeSell, OrdPrice = 0, Quantity = 1\<rparr>]
   \<and> CoveredPosition (fst (hedgeWorkerTick demoEnv (demoStrategy\<lparr>PositionBase := 1\<rparr>))) = 0 + 1"
proof -
  have a: "\<not> DisableHedge (demoStrategy\<lparr>PositionBase := 1\<rparr>)"
    by (simp add: demoStrategy_def)
  have b: "\<bar>PositionBase (demoStrategy\<lparr>PositionBase := 1\<rparr>) - CoveredPosition (demoStrategy\<lparr>PositionBase := 1\<rparr>)\<bar>
       > MinQuantity (sourceMarket (demoStrategy\<lparr>PositionBase := 1\<rparr>))"
    by (simp add: demoStrategy_def demoMarket_def)
  have c: "hedgeWorkerTick demoEnv (demoStrategy\<lparr>PositionBase := 1\<rparr>)
           = (fst (hedgeWorkerTick demoEnv (demoStrategy\<lparr>PositionBase := 1\<rparr>)),
              snd (hedgeWorkerTick demoEnv (demoStrategy\<lparr>PositionBase := 1\<rparr>)))"
    by simp
  have d: "snd (hedgeWorkerTick demoEnv (demoStrategy\<lparr>PositionBase := 1\<rparr>))
       = [\<lparr>OrdType = OrderTypeMarket, Side = SideTypeSell, OrdPrice = 0, Quantity = 1\<rparr>]"
    by (simp add: demo_defs hedge_defs Let_def)
  have e: "\<not> snd (batchPlaceOrder demoEnv
              [\<lparr>OrdType = OrderTypeMarket, Side = SideTypeSell, OrdPrice = 0, Quantity = 1\<rparr>])"
    by (simp add: demoEnv_def)
  have f: "CoveredPosition (demoStrategy\<lparr>PositionBase := 1\<rparr>) = 0"
          "PositionBase (demoStrategy\<lparr>PositionBase := 1\<rparr>) = 1"
    by (simp_all add: demoStrategy_def)
  from hedge_direction [OF a b c] d e f a b show ?thesis
    by simp
qed

lemma floor_demo: "\<lfloor>(5000000::rat) / 1302301\<rfloor> = 3"
  by (rule floor_unique) simp_all

text \<open>
  Claim C4 does not hold of the code. A short uncovered position of 1 is hedged by a buy
  at the best ask 1301 with only 5 of quote currency available: the quantity is adjusted
  and truncated to 0.003, whose notional 3.903 is below \<open>minNotional * 1.02 = 10.2\<close>, and
  the order is submitted all the same, since the test uses the notional 1301 computed
  before the adjustment.
\<close>

theorem hedge_stale_notional_check:
  "hedgeWorkerTick (demoEnv\<lparr>sourceQuoteAvailable := Some 5\<rparr>) (demoStrategy\<lparr>PositionBase := - 1\<rparr>)
     = (demoStrategy\<lparr>PositionBase := - 1, CoveredPosition := - (3 / 1000),
          orderStore := [\<lparr>OrderID = 1, Submit = \<lparr>OrdType = OrderTypeMarket, Side = SideTypeBuy, OrdPrice = 0, Quantity = 3 / 1000\<rparr>\<rparr>],
          activeMakerOrders := [\<lparr>OrderID = 1, Submit = \<lparr>OrdType = OrderTypeMarket, Side = SideTypeBuy, OrdPrice = 0, Quantity = 3 / 1000\<rparr>\<rparr>]\<rparr>,
        [\<lparr>OrdType = OrderTypeMarket, Side = SideTypeBuy, OrdPrice = 0, Quantity = 3 / 1000\<rparr>])
   \<and> (3 / 1000) * 1301 \<le> MinNotional (sourceMarket demoStrategy) * minGap"
  by (simp add: demo_defs hedge_defs Let_def floor_demo)

text \<open>
  Whenever \<open>Hedge\<close> hands an order to the source exchange, the orders the exchange created
  are appended to the active maker orders.
\<close>

lemma Hedge_activeMakerOrders:
  assumes "Hedge env s pos = (s', orders)" and "orders \<noteq> []"
  shows "activeMakerOrders s' = activeMakerOrders s @ fst (batchPlaceOrder env orders)"
  using assms
  by (auto simp: Hedge_def Let_def split: if_splits option.splits dest!: submitHedgeOrder_shape)

text \<open>
  Claim C9 does not hold of the code. A hedging tick with a long uncovered position of 1
  submits a market sell on the source exchange, and the created order is added to the
  active maker orders, which were empty before.
\<close>

theorem hedge_adds_to_activeMakerOrders:
  "activeMakerOrders (demoStrategy\<lparr>PositionBase := 1\<rparr>) = []
   \<and> hedgeWorkerTick demoEnv (demoStrategy\<lparr>PositionBase := 1\<rparr>)
     = (demoStrategy\<lparr>PositionBase := 1, CoveredPosition := 1,
          orderStore := [\<lparr>OrderID = 1, Submit = \<lparr>OrdType = OrderTypeMarket, Side = SideTypeSell, OrdPrice = 0, Quantity = 1\<rparr>\<rparr>],
          activeMakerOrders := [\<lparr>OrderID = 1, Submit = \<lparr>OrdType = OrderTypeMarket, Side = SideTypeSell, OrdPrice = 0, Quantity = 1\<rparr>\<rparr>]\<rparr>,
        [\<lparr>OrdType = OrderTypeMarket, Side = SideTypeSell, OrdPrice = 0, Quantity = 1\<rparr>])"
  by (simp add: demo_defs hedge_defs Let_def)

subsection \<open>Stale prices\<close>

text \<open>
  Claim C5. In a quoting pass, if the best bid or the best ask has been unchanged for more
  than \<open>priceUpdateTimeout\<close> (30 s), so that its heartbeat reports stale, the pass returns
  without handing any order to the maker exchange; the order store is left as it was and
  the active maker orders are those left by the cancel.
\<close>

theorem stale_price_no_orders:
  assumes "BestBidAndAsk env = Some (bestBid, bestAsk)"
    and "timeout (bidPriceHeartBeat s) = priceUpdateTimeout"
    and "timeout (askPriceHeartBeat s) = priceUpdateTimeout"
    and "(lastObserved (bidPriceHeartBeat s) = Some (Price bestBid)
            \<and> now env - lastChange (bidPriceHeartBeat s) > priceUpdateTimeout)
       \<or> (lastObserved (askPriceHeartBeat s) = Some (Price bestAsk)
            \<and> now env - lastChange (askPriceHeartBeat s) > priceUpdateTimeout)"
  shows "\<exists>s'. updateQuote env s = Some (s', [])
             \<and> orderStore s' = orderStore s
             \<and> activeMakerOrders s' = fst (gracefulCancel env (activeMakerOrders s))"
  using assms
  by (auto simp: updateQuote_def HeartBeat_Update_def Let_def split: prod.splits)

theorem stale_price_no_orders_witness:
  "BestBidAndAsk (demoEnv\<lparr>now := 40000\<rparr>) = Some (\<lparr>Price = 1300, Volume = 1\<rparr>, \<lparr>Price = 1301, Volume = 1\<rparr>)
   \<and> now (demoEnv\<lparr>now := 40000\<rparr>)
       - lastChange (bidPriceHeartBeat (demoStrategy\<lparr>bidPriceHeartBeat :=
            \<lparr>lastObserved = Some 1300, lastChange = 5000, timeout = priceUpdateTimeout\<rparr>\<rparr>))
       > priceUpdateTimeout
   \<and> map_option snd (updateQuote (demoEnv\<lparr>now := 40000\<rparr>)
        (demoStrategy\<lparr>bidPriceHeartBeat :=
            \<lparr>lastObserved = Some 1300, lastChange = 5000, timeout = priceUpdateTimeout\<rparr>\<rparr>)) = Some []"
  using stale_price_no_orders [of "demoEnv\<lparr>now := 40000\<rparr>" "\<lparr>Price = 1300, Volume = 1\<rparr>"
      "\<lparr>Price = 1301, Volume = 1\<rparr>"
      "demoStrategy\<lparr>bidPriceHeartBeat :=
            \<lparr>lastObserved = Some 1300, lastChange = 5000, timeout = priceUpdateTimeout\<rparr>\<rparr>"]
  by (auto simp: demoEnv_def demoStrategy_def BestBidAndAsk_def NewPriceHeartBeat_def
      priceUpdateTimeout_def)

end
